theory Spec2Isabelle
  imports Main
begin

section \<open>Vector-Whiteboard: the room and session state machine of the relay server\<close>

text \<open>
  The repository holds two variants of the relay server. The \<^emph>\<open>simple\<close> variant
  (the first server file) keeps one professor slot per room, a cached \<open>userCount\<close>,
  and deletes a room the moment it empties. The \<^emph>\<open>robust\<close> variant (the second server
  file) keeps a map of professors and a map of students per room, validates room keys
  with \<open>validateRoomKey\<close>, and deletes an empty room from a 30 second timer.
  Definitions of the simple variant carry the prefix \<open>simple_\<close> (fields \<open>s_\<close>),
  those of the robust variant \<open>robust_\<close> (fields \<open>r_\<close>).

  Conventions of the embedding.
  \<^item> A handler is a function from the state, the socket id, the value of
    \<open>Date.now()\<close> and the event payload to the new state and the list of emitted
    messages, in emission order. Every early \<open>return\<close> of the source is a branch.
  \<^item> Payload fields are strings, numbers, booleans or absent (\<open>None\<close> is
    \<open>undefined\<close>); a field of another JavaScript type is outside the model.
  \<^item> A character is a code point from 0 to 255. \<open>trim\<close> strips the white space of
    that range, as \<open>String.prototype.trim\<close> does: tab, line feed, vertical tab, form
    feed, carriage return, space and the no-break space (160). \<open>toUpperCase\<close> is the
    case mapping of ASCII, \<open>a\<close>..\<open>z\<close> to \<open>A\<close>..\<open>Z\<close>; it is
    \<open>String.prototype.toUpperCase\<close> on the strings that satisfy \<open>ascii\<close>, and a
    theorem whose content depends on the uppercase form of a string is stated for
    \<open>ascii\<close> strings.
  \<^item> Console logging, \<open>logActivity\<close> and the transport metadata copied into
    sessions and replies (\<open>isMobile\<close>, \<open>userAgent\<close>, \<open>attemptNumber\<close>) are left out:
    no handler branches on them.
\<close>

subsection \<open>JavaScript strings\<close>

type_synonym sid = string

definition js_truthy :: "string option \<Rightarrow> bool" where
  \<comment> \<open>\<open>!!x\<close> for a value that is a string or \<open>undefined\<close>/\<open>null\<close>\<close>
  "js_truthy x = (case x of None \<Rightarrow> False | Some s \<Rightarrow> s \<noteq> [])"

definition is_space :: "char \<Rightarrow> bool" where
  \<comment> \<open>the white space and line terminators \<open>trim\<close> removes, among the code points
      up to 255: 9 to 13, 32 and 160\<close>
  "is_space c = (let n = (of_char c :: nat) in (9 \<le> n \<and> n \<le> 13) \<or> n = 32 \<or> n = 160)"

definition trim :: "string \<Rightarrow> string" where
  "trim s = rev (dropWhile is_space (rev (dropWhile is_space s)))"

definition upper_char :: "char \<Rightarrow> char" where
  \<comment> \<open>\<open>a\<close>..\<open>z\<close> (97 to 122) move down by 32, every other code point stays\<close>
  "upper_char c =
     (let n = (of_char c :: nat) in if 97 \<le> n \<and> n \<le> 122 then char_of (n - 32) else c)"

definition toUpperCase :: "string \<Rightarrow> string" where
  \<comment> \<open>\<open>String.prototype.toUpperCase\<close> on ASCII strings\<close>
  "toUpperCase s = map upper_char s"

definition ascii :: "string \<Rightarrow> bool" where
  \<comment> \<open>every character is a code point below 128\<close>
  "ascii s = list_all (\<lambda>c. (of_char c :: nat) < 128) s"

definition ascii_key :: "string option \<Rightarrow> bool" where
  \<comment> \<open>an absent key, or an ASCII one\<close>
  "ascii_key key = (case key of None \<Rightarrow> True | Some k \<Rightarrow> ascii k)"

definition substring8 :: "string \<Rightarrow> string" where
  \<comment> \<open>\<open>s.substring(0, 8)\<close>\<close>
  "substring8 s = take 8 s"

subsection \<open>Messages and the broadcast dispatcher\<close>

datatype role = Professor | Student

datatype dest =
    ToSocket sid              \<comment> \<open>\<open>socket.emit\<close>\<close>
  | ToRoom string             \<comment> \<open>\<open>io.to(roomKey).emit\<close>\<close>
  | ToRoomExcept string sid   \<comment> \<open>\<open>socket.to(roomKey).emit\<close>, \<open>socket.broadcast.to(roomKey).emit\<close>\<close>

text \<open>
  Modelled from the spec: the Broadcast Dispatcher (the transport library's rooms, which
  are not part of the repository's sources). \<open>toRoom\<close> reaches every connection
  subscribed to the room at call time, \<open>toRoomExcept\<close> all of them but one,
  \<open>toConnection\<close> one connection. Subscription is a function from room key to the
  set of subscribed socket ids; \<open>socket.join(roomKey)\<close> adds the socket, and a closing
  socket has left every room before its \<open>disconnect\<close> handler runs.
\<close>

definition recipients :: "(string \<Rightarrow> sid set) \<Rightarrow> dest \<Rightarrow> sid set" where
  "recipients sub d =
     (case d of ToSocket c \<Rightarrow> {c} | ToRoom k \<Rightarrow> sub k | ToRoomExcept k c \<Rightarrow> sub k - {c})"

definition socket_join :: "(string \<Rightarrow> sid set) \<Rightarrow> sid \<Rightarrow> string \<Rightarrow> (string \<Rightarrow> sid set)" where
  "socket_join sub c k = sub(k := insert c (sub k))"

definition socket_leave_all :: "(string \<Rightarrow> sid set) \<Rightarrow> sid \<Rightarrow> (string \<Rightarrow> sid set)" where
  "socket_leave_all sub c = (\<lambda>k. sub k - {c})"

subsection \<open>Inbound payloads\<close>

type_synonym point = "int \<times> int"

record professor_join =
  pj_roomKey :: "string option"
  pj_professorName :: "string option"
  pj_createIfNotExists :: "bool option"

record student_join =
  sj_roomKey :: "string option"
  sj_studentName :: "string option"

record draw_data =
  dd_path :: "point list option"
  dd_color :: "string option"
  dd_width :: "int option"

definition slice_last :: "nat \<Rightarrow> 'a list \<Rightarrow> 'a list" where
  \<comment> \<open>\<open>xs.slice(-n)\<close> for \<open>n > 0\<close>: the last \<open>n\<close> elements, the whole array when it is shorter\<close>
  "slice_last n xs = drop (length xs - n) xs"

definition set_add :: "'a list \<Rightarrow> 'a \<Rightarrow> 'a list" where
  \<comment> \<open>\<open>Set.prototype.add\<close>, the set kept in insertion order\<close>
  "set_add xs x = (if x \<in> set xs then xs else xs @ [x])"

subsection \<open>The simple variant: data\<close>

record s_command =
  sc_type :: string
  sc_path :: "point list"
  sc_color :: string
  sc_width :: int
  sc_timestamp :: nat
  sc_userId :: sid
  sc_professorName :: string

record s_room =
  s_professor :: "sid option"
  s_students :: "sid list"
  s_history :: "s_command list"
  s_userCount :: nat
  s_createdAt :: nat
  s_createdBy :: string

record s_session =
  ss_role :: role
  ss_name :: string
  ss_roomKey :: string
  ss_userId :: sid
  ss_joinedAt :: nat

record s_state =
  s_rooms :: "string \<rightharpoonup> s_room"
  s_userSessions :: "sid \<rightharpoonup> s_session"
  s_subscribed :: "string \<Rightarrow> sid set"

datatype s_payload =
    S_JoinAttemptReceived
  | S_RoomError string                    \<comment> \<open>\<open>room-error\<close>, its \<open>code\<close>\<close>
  | S_RoomJoined string nat role          \<comment> \<open>\<open>room-joined\<close>: \<open>roomKey\<close>, \<open>userCount\<close>, \<open>role\<close>\<close>
  | S_RoomHistory "s_command list"
  | S_ProfessorJoined string
  | S_UserListUpdate nat "string option" "(string \<times> string) list"
      \<comment> \<open>\<open>user-list-update\<close>: \<open>total\<close>, \<open>professor\<close> (a name or \<open>null\<close>), \<open>students\<close>\<close>
  | S_PermissionDenied string             \<comment> \<open>\<open>permission-denied\<close>, its \<open>code\<close>\<close>
  | S_DrawCommand s_command
  | S_CanvasCleared string                \<comment> \<open>\<open>canvas-cleared\<close>: \<open>clearedBy\<close>\<close>
  | S_ProfessorDisconnected string

type_synonym s_out = "(dest \<times> s_payload) list"

definition s_init :: s_state where
  "s_init = \<lparr>s_rooms = Map.empty, s_userSessions = Map.empty, s_subscribed = (\<lambda>k. {})\<rparr>"

subsection \<open>The simple variant: handlers\<close>

definition simple_studentList :: "(sid \<rightharpoonup> s_session) \<Rightarrow> sid list \<Rightarrow> (string \<times> string) list" where
  "simple_studentList sessions studs =
     map (\<lambda>studentId.
            ((case sessions studentId of
                Some studentSession \<Rightarrow> ss_name studentSession
              | None \<Rightarrow> ''Unknown Student''),
             substring8 studentId)) studs"

definition simple_professor_admit ::
  "s_state \<Rightarrow> sid \<Rightarrow> nat \<Rightarrow> string \<Rightarrow> string \<Rightarrow> s_room \<Rightarrow> s_state \<times> s_out" where
  \<comment> \<open>the tail of the professor join, once the room record \<open>room\<close> is in the registry\<close>
  "simple_professor_admit s c now professorName roomKey room =
     (let userSession = \<lparr>ss_role = Professor, ss_name = trim professorName,
                          ss_roomKey = roomKey, ss_userId = c, ss_joinedAt = now\<rparr>;
          s' = s\<lparr>s_rooms := (s_rooms s)(roomKey \<mapsto> room),
                 s_subscribed := socket_join (s_subscribed s) c roomKey,
                 s_userSessions := (s_userSessions s)(c \<mapsto> userSession)\<rparr>;
          studentList = simple_studentList (s_userSessions s') (s_students room)
      in (s',
          [(ToSocket c, S_JoinAttemptReceived),
           (ToSocket c, S_RoomJoined roomKey (s_userCount room) Professor)]
          @ (if length (s_history room) > 0
             then [(ToSocket c, S_RoomHistory (s_history room))] else [])
          @ [(ToRoomExcept roomKey c, S_ProfessorJoined professorName),
             (ToRoom roomKey, S_UserListUpdate (s_userCount room) (Some professorName) studentList)]))"

definition simple_join_room_as_professor ::
  "s_state \<Rightarrow> sid \<Rightarrow> nat \<Rightarrow> professor_join \<Rightarrow> s_state \<times> s_out" where
  "simple_join_room_as_professor s c now d =
     (if \<not> js_truthy (pj_professorName d) \<or> \<not> js_truthy (pj_roomKey d)
      then (s, [(ToSocket c, S_JoinAttemptReceived), (ToSocket c, S_RoomError ''MISSING_DATA'')])
      else
        let professorName = trim (the (pj_professorName d));
            roomKey = toUpperCase (trim (the (pj_roomKey d)))
        in
          if length professorName < 1 \<or> length professorName > 50
          then (s, [(ToSocket c, S_JoinAttemptReceived), (ToSocket c, S_RoomError ''INVALID_NAME'')])
          else if length roomKey < 3 \<or> length roomKey > 20
          then (s, [(ToSocket c, S_JoinAttemptReceived), (ToSocket c, S_RoomError ''INVALID_ROOM_KEY'')])
          else
            (case s_rooms s roomKey of
               None \<Rightarrow>
                 if pj_createIfNotExists d = Some True
                 then simple_professor_admit s c now professorName roomKey
                        \<lparr>s_professor = Some c, s_students = [], s_history = [], s_userCount = 1,
                         s_createdAt = now, s_createdBy = professorName\<rparr>
                 else (s, [(ToSocket c, S_JoinAttemptReceived),
                           (ToSocket c, S_RoomError ''ROOM_NOT_FOUND'')])
             | Some room \<Rightarrow>
                 if js_truthy (s_professor room) \<and> s_professor room \<noteq> Some c
                 then (s, [(ToSocket c, S_JoinAttemptReceived),
                           (ToSocket c, S_RoomError ''PROFESSOR_EXISTS'')])
                 else simple_professor_admit s c now professorName roomKey
                        (room\<lparr>s_professor := Some c,
                              s_userCount := 1 + length (s_students room)\<rparr>)))"

definition simple_join_room_as_student ::
  "s_state \<Rightarrow> sid \<Rightarrow> nat \<Rightarrow> student_join \<Rightarrow> s_state \<times> s_out" where
  "simple_join_room_as_student s c now d =
     (if \<not> js_truthy (sj_studentName d) \<or> \<not> js_truthy (sj_roomKey d)
      then (s, [(ToSocket c, S_JoinAttemptReceived), (ToSocket c, S_RoomError ''MISSING_DATA'')])
      else
        let studentName = trim (the (sj_studentName d));
            roomKey = toUpperCase (trim (the (sj_roomKey d)))
        in
          if length studentName < 1 \<or> length studentName > 50
          then (s, [(ToSocket c, S_JoinAttemptReceived), (ToSocket c, S_RoomError ''INVALID_NAME'')])
          else
            (case s_rooms s roomKey of
               None \<Rightarrow> (s, [(ToSocket c, S_JoinAttemptReceived),
                             (ToSocket c, S_RoomError ''ROOM_NOT_FOUND'')])
             | Some room0 \<Rightarrow>
                 if s_userCount room0 \<ge> 100
                 then (s, [(ToSocket c, S_JoinAttemptReceived),
                           (ToSocket c, S_RoomError ''ROOM_FULL'')])
                 else
                   let studs = set_add (s_students room0) c;
                       room = room0\<lparr>s_students := studs, s_userCount := 1 + length studs\<rparr>;
                       userSession = \<lparr>ss_role = Student, ss_name = trim studentName,
                                       ss_roomKey = roomKey, ss_userId = c, ss_joinedAt = now\<rparr>;
                       s' = s\<lparr>s_rooms := (s_rooms s)(roomKey \<mapsto> room),
                              s_subscribed := socket_join (s_subscribed s) c roomKey,
                              s_userSessions := (s_userSessions s)(c \<mapsto> userSession)\<rparr>;
                       studentList = simple_studentList (s_userSessions s') (s_students room);
                       professorSession =
                         (case s_professor room of None \<Rightarrow> None
                          | Some p \<Rightarrow> s_userSessions s' p);
                       professorName =
                         (case professorSession of Some ps \<Rightarrow> ss_name ps
                          | None \<Rightarrow> ''Unknown Professor'')
                   in (s',
                       [(ToSocket c, S_JoinAttemptReceived),
                        (ToSocket c, S_RoomJoined roomKey (s_userCount room) Student)]
                       @ (if length (s_history room) > 0
                          then [(ToSocket c, S_RoomHistory (s_history room))] else [])
                       @ [(ToRoom roomKey,
                           S_UserListUpdate (s_userCount room) (Some professorName) studentList)])))"

definition simple_drawCommand ::
  "sid \<Rightarrow> nat \<Rightarrow> s_session \<Rightarrow> draw_data \<Rightarrow> point list \<Rightarrow> s_command" where
  \<comment> \<open>the object literal under \<open>// Create draw command\<close>\<close>
  "simple_drawCommand c now userSession d path =
     \<lparr>sc_type = ''draw'', sc_path = path,
      sc_color = (if js_truthy (dd_color d) then the (dd_color d) else ''#2563eb''),
      sc_width = (case dd_width d of None \<Rightarrow> 2 | Some w \<Rightarrow> if w = 0 then 2 else w),
      sc_timestamp = now, sc_userId = c, sc_professorName = ss_name userSession\<rparr>"

definition simple_draw_command ::
  "s_state \<Rightarrow> sid \<Rightarrow> nat \<Rightarrow> draw_data \<Rightarrow> s_state \<times> s_out" where
  "simple_draw_command s c now d =
     (case s_userSessions s c of
        None \<Rightarrow> (s, [(ToSocket c, S_PermissionDenied ''SESSION_NOT_FOUND'')])
      | Some userSession \<Rightarrow>
          if ss_role userSession \<noteq> Professor
          then (s, [(ToSocket c, S_PermissionDenied ''INSUFFICIENT_PERMISSIONS'')])
          else
            let roomKey = ss_roomKey userSession in
            (case s_rooms s roomKey of
               None \<Rightarrow> (s, [(ToSocket c, S_PermissionDenied ''ROOM_NOT_FOUND'')])
             | Some room \<Rightarrow>
                 (case dd_path d of
                    None \<Rightarrow> (s, [])
                  | Some path \<Rightarrow>
                      if length path = 0 then (s, [])
                      else
                        let drawCommand = simple_drawCommand c now userSession d path;
                            pushed = s_history room @ [drawCommand];
                            history = (if length pushed > 1000 then slice_last 500 pushed
                                       else pushed)
                        in (s\<lparr>s_rooms := (s_rooms s)(roomKey \<mapsto> room\<lparr>s_history := history\<rparr>)\<rparr>,
                            [(ToRoomExcept roomKey c, S_DrawCommand drawCommand)]))))"

definition simple_clear_canvas :: "s_state \<Rightarrow> sid \<Rightarrow> s_state \<times> s_out" where
  "simple_clear_canvas s c =
     (case s_userSessions s c of
        None \<Rightarrow> (s, [(ToSocket c, S_PermissionDenied ''SESSION_NOT_FOUND'')])
      | Some userSession \<Rightarrow>
          if ss_role userSession \<noteq> Professor
          then (s, [(ToSocket c, S_PermissionDenied ''INSUFFICIENT_PERMISSIONS'')])
          else
            let roomKey = ss_roomKey userSession in
            (case s_rooms s roomKey of
               None \<Rightarrow> (s, [])
             | Some room \<Rightarrow>
                 (s\<lparr>s_rooms := (s_rooms s)(roomKey \<mapsto> room\<lparr>s_history := []\<rparr>)\<rparr>,
                  [(ToRoom roomKey, S_CanvasCleared (ss_name userSession))])))"

definition simple_user_list_update :: "s_state \<Rightarrow> string \<Rightarrow> s_out" where
  \<comment> \<open>the block of the disconnect handler under \<open>if (rooms.has(roomKey))\<close>\<close>
  "simple_user_list_update s roomKey =
     (case s_rooms s roomKey of
        None \<Rightarrow> []
      | Some updatedRoom \<Rightarrow>
          let studentList = simple_studentList (s_userSessions s) (s_students updatedRoom);
              professorSession =
                (if js_truthy (s_professor updatedRoom)
                 then s_userSessions s (the (s_professor updatedRoom)) else None);
              professorName = map_option ss_name professorSession
          in [(ToRoom roomKey,
               S_UserListUpdate (s_userCount updatedRoom) professorName studentList)])"

definition simple_disconnect :: "s_state \<Rightarrow> sid \<Rightarrow> s_state \<times> s_out" where
  "simple_disconnect s0 c =
     (let s = s0\<lparr>s_subscribed := socket_leave_all (s_subscribed s0) c\<rparr> in
      case s_userSessions s c of
        None \<Rightarrow> (s, [])
      | Some userSession \<Rightarrow>
          let roomKey = ss_roomKey userSession;
              role = ss_role userSession;
              name = ss_name userSession;
              (s1, out) =
                (case s_rooms s roomKey of
                   None \<Rightarrow> (s, [])
                 | Some room0 \<Rightarrow>
                     if role = Professor
                     then
                       let room = room0\<lparr>s_professor := None,
                                         s_userCount := length (s_students room0)\<rparr>;
                           s' = s\<lparr>s_rooms :=
                                    (if length (s_students room) = 0
                                     then (s_rooms s)(roomKey := None)
                                     else (s_rooms s)(roomKey \<mapsto> room))\<rparr>
                       in (s', (ToRoomExcept roomKey c, S_ProfessorDisconnected name)
                               # simple_user_list_update s' roomKey)
                     else
                       let studs = removeAll c (s_students room0);
                           room = room0\<lparr>s_students := studs,
                                         s_userCount :=
                                           (if js_truthy (s_professor room0) then 1 else 0)
                                           + length studs\<rparr>;
                           s' = s\<lparr>s_rooms :=
                                    (if \<not> js_truthy (s_professor room) \<and> length studs = 0
                                     then (s_rooms s)(roomKey := None)
                                     else (s_rooms s)(roomKey \<mapsto> room))\<rparr>
                       in (s', simple_user_list_update s' roomKey))
          in (s1\<lparr>s_userSessions := (s_userSessions s1)(c := None)\<rparr>, out))"

subsection \<open>The robust variant: data\<close>

fun map_set :: "('k \<times> 'v) list \<Rightarrow> 'k \<Rightarrow> 'v \<Rightarrow> ('k \<times> 'v) list" where
  \<comment> \<open>\<open>Map.prototype.set\<close>, the map kept as its entries in insertion order\<close>
  "map_set [] k v = [(k, v)]"
| "map_set ((k', v') # xs) k v = (if k' = k then (k, v) # xs else (k', v') # map_set xs k v)"

definition map_delete :: "('k \<times> 'v) list \<Rightarrow> 'k \<Rightarrow> ('k \<times> 'v) list" where
  "map_delete xs k = filter (\<lambda>e. fst e \<noteq> k) xs"

record command_in =
  ci_type :: "string option"
  ci_path :: "point list option"
  ci_color :: "string option"
  ci_width :: "int option"

record r_command =
  rc_type :: string
  rc_path :: "point list"
  rc_color :: "string option"
  rc_width :: "int option"
  rc_professorId :: string
  rc_professorName :: string
  rc_timestamp :: nat
  rc_roomKey :: string

record r_participant =
  rp_name :: string
  rp_socketId :: sid
  rp_joinedAt :: nat
  rp_role :: role

record r_metadata =
  rm_createdAt :: nat
  rm_lastActivity :: nat
  rm_createdBy :: "string \<times> sid"
  rm_roomKey :: string

record r_room =
  r_professors :: "(sid \<times> r_participant) list"
  r_students :: "(sid \<times> r_participant) list"
  r_commands :: "r_command list"
  r_metadata :: r_metadata

record r_session =
  rs_role :: role
  rs_name :: string
  rs_roomKey :: string
  rs_userId :: sid

record r_state =
  r_rooms :: "string \<rightharpoonup> r_room"
  r_userSessions :: "sid \<rightharpoonup> r_session"
  r_subscribed :: "string \<Rightarrow> sid set"
  r_timers :: "string list"
    \<comment> \<open>the pending 30 second deletion timers, oldest first, each with the room key it captured\<close>

datatype r_payload =
    R_RoomError string                    \<comment> \<open>\<open>room-error\<close>, its \<open>code\<close>\<close>
  | R_RoomJoined string role string nat nat nat
      \<comment> \<open>\<open>room-joined\<close>: \<open>roomKey\<close>, \<open>role\<close>, \<open>userName\<close>, \<open>userCount\<close>, \<open>professors\<close>, \<open>students\<close>\<close>
  | R_RoomHistory "r_command list" nat
  | R_UserListUpdate "(string \<times> string) list" "(string \<times> string) list" nat
      \<comment> \<open>\<open>user-list-update\<close>: \<open>professors\<close>, \<open>students\<close>, \<open>total\<close>\<close>
  | R_PermissionDenied string             \<comment> \<open>\<open>permission-denied\<close>, its \<open>message\<close>\<close>
  | R_DrawCommand r_command
  | R_CanvasCleared string string         \<comment> \<open>\<open>canvas-cleared\<close>: \<open>professorId\<close>, \<open>professorName\<close>\<close>

type_synonym r_out = "(dest \<times> r_payload) list"

record room_stats =
  st_professors :: nat
  st_students :: nat
  st_total :: nat
  st_exists :: bool


definition r_init :: r_state where
  "r_init = \<lparr>r_rooms = Map.empty, r_userSessions = Map.empty, r_subscribed = (\<lambda>k. {}),
             r_timers = []\<rparr>"

subsection \<open>The robust variant: utility functions\<close>

definition is_AZ09 :: "char \<Rightarrow> bool" where
  \<comment> \<open>the character class \<open>[A-Z0-9]\<close>: code points 65 to 90 and 48 to 57\<close>
  "is_AZ09 c = (let n = (of_char c :: nat) in (65 \<le> n \<and> n \<le> 90) \<or> (48 \<le> n \<and> n \<le> 57))"

definition validateRoomKey :: "string option \<Rightarrow> bool" where
  "validateRoomKey key =
     (if \<not> js_truthy key then False
      else let cleanKey = toUpperCase (trim (the key))
           in length cleanKey \<ge> 3 \<and> length cleanKey \<le> 20
              \<and> (cleanKey \<noteq> [] \<and> list_all is_AZ09 cleanKey))"

definition getRoomStats :: "r_state \<Rightarrow> string \<Rightarrow> room_stats" where
  "getRoomStats s roomKey =
     (case r_rooms s roomKey of
        None \<Rightarrow> \<lparr>st_professors = 0, st_students = 0, st_total = 0, st_exists = False\<rparr>
      | Some room \<Rightarrow>
          \<lparr>st_professors = length (r_professors room),
           st_students = length (r_students room),
           st_total = length (r_professors room) + length (r_students room),
           st_exists = True\<rparr>)"

definition createRoom :: "r_state \<Rightarrow> nat \<Rightarrow> string \<Rightarrow> string \<times> sid \<Rightarrow> r_state" where
  "createRoom s now roomKey creatorInfo =
     (let normalizedKey = toUpperCase roomKey
      in s\<lparr>r_rooms := (r_rooms s)(normalizedKey \<mapsto>
              \<lparr>r_professors = [], r_students = [], r_commands = [],
               r_metadata = \<lparr>rm_createdAt = now, rm_lastActivity = now,
                             rm_createdBy = creatorInfo, rm_roomKey = normalizedKey\<rparr>\<rparr>)\<rparr>)"

definition robust_user_list :: "(sid \<times> r_participant) list \<Rightarrow> (string \<times> string) list" where
  "robust_user_list ps = map (\<lambda>p. (rp_name p, substring8 (rp_socketId p))) (map snd ps)"

subsection \<open>The robust variant: handlers\<close>

definition robust_professor_admit ::
  "r_state \<Rightarrow> sid \<Rightarrow> nat \<Rightarrow> string \<Rightarrow> string \<Rightarrow> r_state \<times> r_out" where
  \<comment> \<open>the professor join from \<open>const room = rooms.get(normalizedRoomKey)\<close> on; reading a
      field of an absent room throws, and the handler's \<open>catch\<close> reports it\<close>
  "robust_professor_admit s c now professorName normalizedRoomKey =
     (case r_rooms s normalizedRoomKey of
        None \<Rightarrow> (s, [(ToSocket c, R_RoomError ''INTERNAL_ERROR'')])
      | Some room0 \<Rightarrow>
          if length (r_professors room0) \<ge> 3
          then (s, [(ToSocket c, R_RoomError ''PROFESSOR_LIMIT_REACHED'')])
          else
            let professorData = \<lparr>rp_name = trim professorName, rp_socketId = c,
                                  rp_joinedAt = now, rp_role = Professor\<rparr>;
                room = room0\<lparr>r_professors := map_set (r_professors room0) c professorData,
                              r_metadata := (r_metadata room0)\<lparr>rm_lastActivity := now\<rparr>\<rparr>;
                s' = s\<lparr>r_rooms := (r_rooms s)(normalizedRoomKey \<mapsto> room),
                       r_subscribed := socket_join (r_subscribed s) c normalizedRoomKey,
                       r_userSessions := (r_userSessions s)(c \<mapsto>
                          \<lparr>rs_role = Professor, rs_name = trim professorName,
                           rs_roomKey = normalizedRoomKey, rs_userId = c\<rparr>)\<rparr>;
                roomStats = getRoomStats s' normalizedRoomKey
            in (s',
                [(ToSocket c, R_RoomJoined normalizedRoomKey Professor (trim professorName)
                                (st_total roomStats) (st_professors roomStats)
                                (st_students roomStats))]
                @ (if length (r_commands room) > 0
                   then [(ToSocket c, R_RoomHistory (r_commands room) (length (r_commands room)))]
                   else [])
                @ [(ToRoom normalizedRoomKey,
                    R_UserListUpdate (robust_user_list (r_professors room))
                      (robust_user_list (r_students room))
                      (length (r_professors room) + length (r_students room)))]))"

definition robust_createIfNotExists :: "professor_join \<Rightarrow> bool" where
  \<comment> \<open>the destructuring default \<open>createIfNotExists = true\<close>\<close>
  "robust_createIfNotExists d = (case pj_createIfNotExists d of None \<Rightarrow> True | Some b \<Rightarrow> b)"

definition robust_roomKey :: "professor_join \<Rightarrow> string \<Rightarrow> string option" where
  \<comment> \<open>\<open>let roomKey = inputRoomKey\<close>, replaced by a generated key \<open>gen\<close> when none was
      supplied and creation is allowed\<close>
  "robust_roomKey d gen =
     (if \<not> js_truthy (pj_roomKey d) \<and> robust_createIfNotExists d then Some gen
      else pj_roomKey d)"

definition robust_join_room_as_professor ::
  "r_state \<Rightarrow> sid \<Rightarrow> nat \<Rightarrow> string \<Rightarrow> professor_join \<Rightarrow> r_state \<times> r_out" where
  \<comment> \<open>\<open>gen\<close> is what \<open>generateRoomKey()\<close> returns if this event calls it\<close>
  "robust_join_room_as_professor s c now gen d =
     (let professorName = pj_professorName d;
          createIfNotExists = robust_createIfNotExists d
      in
        if \<not> js_truthy professorName \<or> length (trim (the professorName)) = 0
        then (s, [(ToSocket c, R_RoomError ''INVALID_NAME'')])
        else
          let roomKey = robust_roomKey d gen
          in
            if \<not> validateRoomKey roomKey
            then (s, [(ToSocket c, R_RoomError ''INVALID_ROOM_KEY'')])
            else
              let normalizedRoomKey = toUpperCase (the roomKey) in
              (case r_rooms s normalizedRoomKey of
                 None \<Rightarrow>
                   if createIfNotExists
                   then robust_professor_admit
                          (createRoom s now normalizedRoomKey (the professorName, c))
                          c now (the professorName) normalizedRoomKey
                   else (s, [(ToSocket c, R_RoomError ''ROOM_NOT_FOUND'')])
               | Some _ \<Rightarrow>
                   robust_professor_admit s c now (the professorName) normalizedRoomKey))"

definition robust_join_room_as_student ::
  "r_state \<Rightarrow> sid \<Rightarrow> nat \<Rightarrow> student_join \<Rightarrow> r_state \<times> r_out" where
  "robust_join_room_as_student s c now d =
     (let studentName = sj_studentName d; inputRoomKey = sj_roomKey d
      in
        if \<not> js_truthy studentName \<or> length (trim (the studentName)) = 0
        then (s, [(ToSocket c, R_RoomError ''INVALID_NAME'')])
        else if \<not> validateRoomKey inputRoomKey
        then (s, [(ToSocket c, R_RoomError ''INVALID_ROOM_KEY'')])
        else
          let normalizedRoomKey = toUpperCase (the inputRoomKey) in
          (case r_rooms s normalizedRoomKey of
             None \<Rightarrow> (s, [(ToSocket c, R_RoomError ''ROOM_NOT_FOUND'')])
           | Some room0 \<Rightarrow>
               if length (r_professors room0) = 0
               then (s, [(ToSocket c, R_RoomError ''NO_PROFESSOR'')])
               else if length (r_students room0) \<ge> 100
               then (s, [(ToSocket c, R_RoomError ''STUDENT_LIMIT_REACHED'')])
               else
                 let studentData = \<lparr>rp_name = trim (the studentName), rp_socketId = c,
                                     rp_joinedAt = now, rp_role = Student\<rparr>;
                     room = room0\<lparr>r_students := map_set (r_students room0) c studentData,
                                   r_metadata := (r_metadata room0)\<lparr>rm_lastActivity := now\<rparr>\<rparr>;
                     s' = s\<lparr>r_rooms := (r_rooms s)(normalizedRoomKey \<mapsto> room),
                            r_subscribed := socket_join (r_subscribed s) c normalizedRoomKey,
                            r_userSessions := (r_userSessions s)(c \<mapsto>
                               \<lparr>rs_role = Student, rs_name = trim (the studentName),
                                rs_roomKey = normalizedRoomKey, rs_userId = c\<rparr>)\<rparr>;
                     roomStats = getRoomStats s' normalizedRoomKey
                 in (s',
                     [(ToSocket c, R_RoomJoined normalizedRoomKey Student (trim (the studentName))
                                     (st_total roomStats) (st_professors roomStats)
                                     (st_students roomStats))]
                     @ (if length (r_commands room) > 0
                        then [(ToSocket c,
                               R_RoomHistory (r_commands room) (length (r_commands room)))]
                        else [])
                     @ [(ToRoom normalizedRoomKey,
                         R_UserListUpdate (robust_user_list (r_professors room))
                           (robust_user_list (r_students room))
                           (length (r_professors room) + length (r_students room)))])))"

definition robust_enrichedCommand ::
  "sid \<Rightarrow> nat \<Rightarrow> r_session \<Rightarrow> command_in \<Rightarrow> r_command" where
  \<comment> \<open>the object literal under \<open>// Add metadata to command\<close>; it is built only after
      \<open>command.type\<close> and \<open>command.path\<close> were found present\<close>
  "robust_enrichedCommand c now userSession command =
     \<lparr>rc_type = the (ci_type command), rc_path = the (ci_path command),
      rc_color = ci_color command, rc_width = ci_width command,
      rc_professorId = substring8 c, rc_professorName = rs_name userSession,
      rc_timestamp = now, rc_roomKey = rs_roomKey userSession\<rparr>"

definition robust_draw_command ::
  "r_state \<Rightarrow> sid \<Rightarrow> nat \<Rightarrow> command_in option \<Rightarrow> r_state \<times> r_out" where
  \<comment> \<open>the handler reads one property of the payload, \<open>const { command } = data\<close>;
      the argument is that property, \<open>None\<close> for a payload that has none, as one in
      the flat format \<open>{ path, color, width }\<close> that the simple variant reads\<close>
  "robust_draw_command s c now d =
     (case r_userSessions s c of
        None \<Rightarrow> (s, [(ToSocket c, R_PermissionDenied ''User session not found'')])
      | Some userSession \<Rightarrow>
          if rs_role userSession \<noteq> Professor
          then (s, [(ToSocket c, R_PermissionDenied ''Only professors can draw'')])
          else
            (case d of
               None \<Rightarrow> (s, [])
             | Some command \<Rightarrow>
                 if \<not> js_truthy (ci_type command) \<or> ci_path command = None then (s, [])
                 else
                   let roomKey = rs_roomKey userSession in
                   (case r_rooms s roomKey of
                      None \<Rightarrow> (s, [(ToSocket c, R_RoomError ''ROOM_GONE'')])
                    | Some room \<Rightarrow>
                        let enrichedCommand = robust_enrichedCommand c now userSession command;
                            pushed = r_commands room @ [enrichedCommand];
                            commands = (if length pushed > 1000 then slice_last 1000 pushed
                                        else pushed)
                        in (s\<lparr>r_rooms := (r_rooms s)(roomKey \<mapsto>
                                room\<lparr>r_commands := commands,
                                     r_metadata := (r_metadata room)\<lparr>rm_lastActivity := now\<rparr>\<rparr>)\<rparr>,
                            [(ToRoomExcept roomKey c, R_DrawCommand enrichedCommand)]))))"

definition robust_clear_canvas :: "r_state \<Rightarrow> sid \<Rightarrow> nat \<Rightarrow> r_state \<times> r_out" where
  "robust_clear_canvas s c now =
     (case r_userSessions s c of
        None \<Rightarrow> (s, [(ToSocket c, R_PermissionDenied ''Only professors can clear the canvas'')])
      | Some userSession \<Rightarrow>
          if rs_role userSession \<noteq> Professor
          then (s, [(ToSocket c, R_PermissionDenied ''Only professors can clear the canvas'')])
          else
            let roomKey = rs_roomKey userSession in
            (case r_rooms s roomKey of
               None \<Rightarrow> (s, [(ToSocket c, R_RoomError ''ROOM_GONE'')])
             | Some room \<Rightarrow>
                 (s\<lparr>r_rooms := (r_rooms s)(roomKey \<mapsto>
                      room\<lparr>r_commands := [],
                           r_metadata := (r_metadata room)\<lparr>rm_lastActivity := now\<rparr>\<rparr>)\<rparr>,
                  [(ToRoom roomKey,
                    R_CanvasCleared (substring8 c) (rs_name userSession))])))"

definition robust_leave :: "r_room \<Rightarrow> role \<Rightarrow> sid \<Rightarrow> nat \<Rightarrow> r_room" where
  \<comment> \<open>the room update of the disconnect handler: \<open>// Remove user from appropriate
      collection\<close> and the \<open>lastActivity\<close> stamp\<close>
  "robust_leave room0 role c now =
     (if role = Professor
      then room0\<lparr>r_professors := map_delete (r_professors room0) c\<rparr>
      else room0\<lparr>r_students := map_delete (r_students room0) c\<rparr>)
     \<lparr>r_metadata := (r_metadata room0)\<lparr>rm_lastActivity := now\<rparr>\<rparr>"

definition robust_disconnect :: "r_state \<Rightarrow> sid \<Rightarrow> nat \<Rightarrow> r_state \<times> r_out" where
  "robust_disconnect s0 c now =
     (let s = s0\<lparr>r_subscribed := socket_leave_all (r_subscribed s0) c\<rparr> in
      case r_userSessions s c of
        None \<Rightarrow> (s, [])
      | Some userSession \<Rightarrow>
          let role = rs_role userSession; roomKey = rs_roomKey userSession in
          (case r_rooms s roomKey of
             None \<Rightarrow> (s\<lparr>r_userSessions := (r_userSessions s)(c := None)\<rparr>, [])
           | Some room0 \<Rightarrow>
               let room = robust_leave room0 role c now;
                   totalUsers = length (r_professors room) + length (r_students room);
                   s1 = s\<lparr>r_rooms := (r_rooms s)(roomKey \<mapsto> room)\<rparr>
               in
                 if totalUsers = 0
                 then (s1\<lparr>r_timers := r_timers s1 @ [roomKey],
                          r_userSessions := (r_userSessions s1)(c := None)\<rparr>, [])
                 else (s1\<lparr>r_userSessions := (r_userSessions s1)(c := None)\<rparr>,
                       [(ToRoomExcept roomKey c,
                         R_UserListUpdate (robust_user_list (r_professors room))
                           (robust_user_list (r_students room)) totalUsers)])))"

definition robust_timer_fires :: "r_state \<Rightarrow> r_state" where
  \<comment> \<open>the callback of the oldest pending \<open>setTimeout\<close> of the disconnect handler runs\<close>
  "robust_timer_fires s =
     (case r_timers s of
        [] \<Rightarrow> s
      | roomKey # rest \<Rightarrow>
          let s' = s\<lparr>r_timers := rest\<rparr> in
          (case r_rooms s' roomKey of
             None \<Rightarrow> s'
           | Some roomCheck \<Rightarrow>
               if length (r_professors roomCheck) = 0 \<and> length (r_students roomCheck) = 0
               then s'\<lparr>r_rooms := (r_rooms s')(roomKey := None)\<rparr>
               else s'))"


definition robust_cleanup :: "r_state \<Rightarrow> nat \<Rightarrow> r_state" where
  \<comment> \<open>the hourly \<open>setInterval\<close> callback: rooms inactive for more than 24 hours and empty go\<close>
  "robust_cleanup s now =
     s\<lparr>r_rooms := (\<lambda>roomKey.
          case r_rooms s roomKey of
            None \<Rightarrow> None
          | Some room \<Rightarrow>
              if now - rm_lastActivity (r_metadata room) > 24 * 60 * 60 * 1000
                 \<and> length (r_professors room) + length (r_students room) = 0
              then None else Some room)\<rparr>"

subsection \<open>Runs of the two servers\<close>

text \<open>
  An event of a connection is one of the five socket events. The transport gives every
  connection a fresh, non-empty id, and a connection sends nothing after its
  \<open>disconnect\<close>; so a run carries the set of ids that have disconnected, and only other
  ids send events.
\<close>

datatype s_event =
    S_JoinProfessor nat professor_join
  | S_JoinStudent nat student_join
  | S_Draw nat draw_data
  | S_Clear
  | S_Disconnect

fun simple_step :: "s_state \<Rightarrow> sid \<Rightarrow> s_event \<Rightarrow> s_state \<times> s_out" where
  "simple_step s c (S_JoinProfessor now d) = simple_join_room_as_professor s c now d"
| "simple_step s c (S_JoinStudent now d) = simple_join_room_as_student s c now d"
| "simple_step s c (S_Draw now d) = simple_draw_command s c now d"
| "simple_step s c S_Clear = simple_clear_canvas s c"
| "simple_step s c S_Disconnect = simple_disconnect s c"

inductive simple_reach :: "sid set \<Rightarrow> s_state \<Rightarrow> bool" where
  s_start: "simple_reach {} s_init"
| s_event: "simple_reach X s \<Longrightarrow> c \<noteq> [] \<Longrightarrow> c \<notin> X \<Longrightarrow> e \<noteq> S_Disconnect
            \<Longrightarrow> simple_reach X (fst (simple_step s c e))"
| s_close: "simple_reach X s \<Longrightarrow> c \<noteq> [] \<Longrightarrow> c \<notin> X
            \<Longrightarrow> simple_reach (insert c X) (fst (simple_step s c S_Disconnect))"

datatype r_event =
    R_JoinProfessor nat string professor_join
  | R_JoinStudent nat student_join
  | R_Draw nat "command_in option"
  | R_Clear nat
  | R_Disconnect nat

fun robust_step :: "r_state \<Rightarrow> sid \<Rightarrow> r_event \<Rightarrow> r_state \<times> r_out" where
  "robust_step s c (R_JoinProfessor now gen d) = robust_join_room_as_professor s c now gen d"
| "robust_step s c (R_JoinStudent now d) = robust_join_room_as_student s c now d"
| "robust_step s c (R_Draw now d) = robust_draw_command s c now d"
| "robust_step s c (R_Clear now) = robust_clear_canvas s c now"
| "robust_step s c (R_Disconnect now) = robust_disconnect s c now"

inductive robust_reach :: "sid set \<Rightarrow> r_state \<Rightarrow> bool" where
  r_start: "robust_reach {} r_init"
| r_event: "robust_reach X s \<Longrightarrow> c \<noteq> [] \<Longrightarrow> c \<notin> X \<Longrightarrow> \<forall>now. e \<noteq> R_Disconnect now
            \<Longrightarrow> robust_reach X (fst (robust_step s c e))"
| r_close: "robust_reach X s \<Longrightarrow> c \<noteq> [] \<Longrightarrow> c \<notin> X
            \<Longrightarrow> robust_reach (insert c X) (fst (robust_step s c (R_Disconnect now)))"
| r_timer: "robust_reach X s \<Longrightarrow> robust_reach X (robust_timer_fires s)"
| r_sweep: "robust_reach X s \<Longrightarrow> robust_reach X (robust_cleanup s now)"

definition simple_occupants :: "s_room \<Rightarrow> sid set" where
  \<comment> \<open>the identities a room records: its professor slot and its student set\<close>
  "simple_occupants room =
     (case s_professor room of None \<Rightarrow> {} | Some p \<Rightarrow> {p}) \<union> set (s_students room)"

definition robust_occupants :: "r_room \<Rightarrow> sid set" where
  "robust_occupants room = fst ` set (r_professors room) \<union> fst ` set (r_students room)"

definition simple_inv :: "sid set \<Rightarrow> s_state \<Rightarrow> bool" where
  "simple_inv X s \<longleftrightarrow>
     (\<forall>c us. s_userSessions s c = Some us \<longrightarrow>
        c \<noteq> [] \<and> c \<in> s_subscribed s (ss_roomKey us)) \<and>
     (\<forall>c us. s_userSessions s c = Some us \<and> ss_role us = Professor \<longrightarrow>
        (\<exists>room. s_rooms s (ss_roomKey us) = Some room \<and> s_professor room = Some c)) \<and>
     (\<forall>k room p. s_rooms s k = Some room \<and> s_professor room = Some p \<and> p \<notin> X \<longrightarrow>
        p \<in> s_subscribed s k) \<and>
     (\<forall>k room d. s_rooms s k = Some room \<and> d \<in> set (s_students room) \<and> d \<notin> X \<longrightarrow>
        d \<in> s_subscribed s k)"

definition robust_inv :: "sid set \<Rightarrow> r_state \<Rightarrow> bool" where
  "robust_inv X s \<longleftrightarrow>
     (\<forall>c us. r_userSessions s c = Some us \<longrightarrow> c \<in> r_subscribed s (rs_roomKey us)) \<and>
     (\<forall>c us. r_userSessions s c = Some us \<and> rs_role us = Professor \<longrightarrow>
        (\<exists>room. r_rooms s (rs_roomKey us) = Some room \<and> c \<in> fst ` set (r_professors room))) \<and>
     (\<forall>k room d. r_rooms s k = Some room \<and> d \<in> fst ` set (r_professors room) \<and> d \<notin> X \<longrightarrow>
        d \<in> r_subscribed s k) \<and>
     (\<forall>k room d. r_rooms s k = Some room \<and> d \<in> fst ` set (r_students room) \<and> d \<notin> X \<longrightarrow>
        d \<in> r_subscribed s k)"

subsection \<open>A classroom session, used to exercise the theorems\<close>

text \<open>
  Professor Ann (socket \<open>P1\<close>) opens the room \<open>math101\<close>, student Bob (socket \<open>S1\<close>)
  joins it as \<open>MATH101\<close>. All events carry the clock value 0.
\<close>

definition ann_opens :: professor_join where
  "ann_opens = \<lparr>pj_roomKey = Some ''math101'', pj_professorName = Some ''Ann'',
                 pj_createIfNotExists = Some True\<rparr>"

definition bob_joins :: student_join where
  "bob_joins = \<lparr>sj_roomKey = Some ''MATH101'', sj_studentName = Some ''Bob''\<rparr>"

definition cy_joins :: student_join where
  "cy_joins = \<lparr>sj_roomKey = Some ''MATH101'', sj_studentName = Some ''Cy''\<rparr>"

definition a_stroke :: draw_data where
  "a_stroke = \<lparr>dd_path = Some [(0, 0), (3, 4)], dd_color = None, dd_width = None\<rparr>"

definition a_command :: command_in where
  "a_command = \<lparr>ci_type = Some ''draw'', ci_path = Some [(0, 0), (3, 4)],
                 ci_color = None, ci_width = None\<rparr>"

definition s_opened :: s_state where
  "s_opened = fst (simple_step s_init ''P1'' (S_JoinProfessor 0 ann_opens))"

definition s_class :: s_state where
  "s_class = fst (simple_step s_opened ''S1'' (S_JoinStudent 0 bob_joins))"

definition r_opened :: r_state where
  "r_opened = fst (robust_step r_init ''P1'' (R_JoinProfessor 0 ''GEN123'' ann_opens))"

definition r_class :: r_state where
  "r_class = fst (robust_step r_opened ''S1'' (R_JoinStudent 0 bob_joins))"

text \<open>Ann draws the same stroke \<open>n\<close> times in the room she opened.\<close>

definition s_board :: "nat \<Rightarrow> s_state" where
  "s_board n = ((\<lambda>s. fst (simple_step s ''P1'' (S_Draw 0 a_stroke))) ^^ n) s_opened"

definition r_board :: "nat \<Rightarrow> r_state" where
  "r_board n = ((\<lambda>s. fst (robust_step s ''P1'' (R_Draw 0 (Some a_command)))) ^^ n) r_opened"

definition s_stroke :: s_command where
  "s_stroke = \<lparr>sc_type = ''draw'', sc_path = [(0, 0), (3, 4)], sc_color = ''#2563eb'',
               sc_width = 2, sc_timestamp = 0, sc_userId = ''P1'', sc_professorName = ''Ann''\<rparr>"

definition r_stroke :: r_command where
  "r_stroke = \<lparr>rc_type = ''draw'', rc_path = [(0, 0), (3, 4)], rc_color = None,
               rc_width = None, rc_professorId = ''P1'', rc_professorName = ''Ann'',
               rc_timestamp = 0, rc_roomKey = ''MATH101''\<rparr>"

text \<open>Ann, the only professor, disconnects while Bob stays.\<close>

definition s_left :: s_state where
  "s_left = fst (simple_step s_class ''P1'' S_Disconnect)"

text \<open>Ann, still in \<open>MATH101\<close>, opens a second room from the same connection.\<close>

definition ann_moves :: professor_join where
  "ann_moves = \<lparr>pj_roomKey = Some ''phys202'', pj_professorName = Some ''Ann'',
                 pj_createIfNotExists = Some True\<rparr>"


text \<open>
  Ann has drawn one stroke in \<open>MATH101\<close>. Her connection \<open>P1\<close> closes at clock 1000;
  she comes back on a new connection \<open>P2\<close> at 5000, which closes at 20000; then the
  deletion timer set by the first disconnect, due at 31000, runs.
\<close>

definition r_away :: r_state where
  "r_away = fst (robust_step (r_board 1) ''P1'' (R_Disconnect 1000))"

definition r_back :: r_state where
  "r_back = fst (robust_step r_away ''P2'' (R_JoinProfessor 5000 ''GEN123'' ann_opens))"

definition r_away_again :: r_state where
  "r_away_again = fst (robust_step r_back ''P2'' (R_Disconnect 20000))"

definition r_stale :: r_state where
  "r_stale = robust_timer_fires r_away_again"
section \<open>Facts about the string functions\<close>

lemmas char_eval = char_of_def bit_Suc_0_iff is_space_def upper_char_def is_AZ09_def
  toUpperCase_def trim_def js_truthy_def substring8_def

lemma upper_char_idem [simp]: "upper_char (upper_char c) = upper_char c"
  by (auto simp: upper_char_def Let_def)

lemma toUpperCase_idem [simp]: "toUpperCase (toUpperCase s) = toUpperCase s"
  by (simp add: toUpperCase_def)

lemma is_space_upper [simp]: "is_space (upper_char c) = is_space c"
  by (auto simp: upper_char_def is_space_def Let_def)

lemma toUpperCase_dropWhile:
  "dropWhile is_space (toUpperCase s) = toUpperCase (dropWhile is_space s)"
  by (induction s) (auto simp: toUpperCase_def)

lemma trim_toUpperCase: "trim (toUpperCase s) = toUpperCase (trim s)"
proof -
  have rev_up: "rev (toUpperCase xs) = toUpperCase (rev xs)" for xs
    by (simp add: toUpperCase_def rev_map)
  show ?thesis
    by (simp add: trim_def rev_up toUpperCase_dropWhile)
qed

lemma toUpperCase_Nil [simp]: "toUpperCase s = [] \<longleftrightarrow> s = []"
  by (simp add: toUpperCase_def)

lemma length_toUpperCase [simp]: "length (toUpperCase s) = length s"
  by (simp add: toUpperCase_def)

lemma validateRoomKey_upper [simp]:
  "validateRoomKey (Some (toUpperCase k)) = validateRoomKey (Some k)"
  by (simp add: validateRoomKey_def js_truthy_def trim_toUpperCase)


lemma same_upper_truthy:
  assumes "toUpperCase ka = toUpperCase kb"
  shows "js_truthy (Some ka) = js_truthy (Some kb)"
proof -
  have "(ka = []) = (toUpperCase ka = [])" by simp
  also have "\<dots> = (kb = [])" unfolding assms by simp
  finally show ?thesis by (simp add: js_truthy_def)
qed


section \<open>Invariants of the runs\<close>

subsection \<open>The simple variant\<close>

lemma set_set_add [simp]: "set (set_add xs x) = insert x (set xs)"
  by (auto simp: set_add_def)

lemma keys_map_set [simp]: "fst ` set (map_set xs k v) = insert k (fst ` set xs)"
  by (induction xs k v rule: map_set.induct) auto

lemma keys_map_delete [simp]: "fst ` set (map_delete xs k) = fst ` set xs - {k}"
  by (auto simp: map_delete_def)

lemma simple_disconnect_no_session:
  "s_userSessions s c = None \<Longrightarrow>
   simple_disconnect s c = (s\<lparr>s_subscribed := socket_leave_all (s_subscribed s) c\<rparr>, [])"
  by (simp add: simple_disconnect_def)

lemma simple_disconnect_no_room:
  "s_userSessions s c = Some us \<Longrightarrow> s_rooms s (ss_roomKey us) = None \<Longrightarrow>
   simple_disconnect s c =
     (s\<lparr>s_subscribed := socket_leave_all (s_subscribed s) c,
        s_userSessions := (s_userSessions s)(c := None)\<rparr>, [])"
  by (simp add: simple_disconnect_def)

lemma simple_disconnect_professor:
  "s_userSessions s c = Some us \<Longrightarrow> ss_role us = Professor \<Longrightarrow>
   s_rooms s (ss_roomKey us) = Some room0 \<Longrightarrow>
   fst (simple_disconnect s c) =
     s\<lparr>s_subscribed := socket_leave_all (s_subscribed s) c,
       s_rooms := (if s_students room0 = [] then (s_rooms s)(ss_roomKey us := None)
                   else (s_rooms s)(ss_roomKey us \<mapsto>
                          room0\<lparr>s_professor := None, s_userCount := length (s_students room0)\<rparr>)),
       s_userSessions := (s_userSessions s)(c := None)\<rparr>"
  by (simp add: simple_disconnect_def Let_def)

lemma simple_disconnect_student:
  "s_userSessions s c = Some us \<Longrightarrow> ss_role us = Student \<Longrightarrow>
   s_rooms s (ss_roomKey us) = Some room0 \<Longrightarrow>
   fst (simple_disconnect s c) =
     s\<lparr>s_subscribed := socket_leave_all (s_subscribed s) c,
       s_rooms := (if \<not> js_truthy (s_professor room0) \<and> removeAll c (s_students room0) = []
                   then (s_rooms s)(ss_roomKey us := None)
                   else (s_rooms s)(ss_roomKey us \<mapsto>
                          room0\<lparr>s_students := removeAll c (s_students room0),
                                s_userCount := (if js_truthy (s_professor room0) then 1 else 0)
                                               + length (removeAll c (s_students room0))\<rparr>)),
       s_userSessions := (s_userSessions s)(c := None)\<rparr>"
  by (simp add: simple_disconnect_def Let_def)


lemma simple_invI:
  assumes "\<And>c us. s_userSessions s c = Some us \<Longrightarrow> c \<noteq> [] \<and> c \<in> s_subscribed s (ss_roomKey us)"
    and "\<And>c us. s_userSessions s c = Some us \<Longrightarrow> ss_role us = Professor \<Longrightarrow>
           \<exists>room. s_rooms s (ss_roomKey us) = Some room \<and> s_professor room = Some c"
    and "\<And>k room p. s_rooms s k = Some room \<Longrightarrow> s_professor room = Some p \<Longrightarrow> p \<notin> X \<Longrightarrow>
           p \<in> s_subscribed s k"
    and "\<And>k room d. s_rooms s k = Some room \<Longrightarrow> d \<in> set (s_students room) \<Longrightarrow> d \<notin> X \<Longrightarrow>
           d \<in> s_subscribed s k"
  shows "simple_inv X s"
  unfolding simple_inv_def using assms by blast

lemma simple_inv_session:
  "simple_inv X s \<Longrightarrow> s_userSessions s c = Some us \<Longrightarrow> c \<noteq> [] \<and> c \<in> s_subscribed s (ss_roomKey us)"
  unfolding simple_inv_def by blast

lemma simple_inv_professor:
  "simple_inv X s \<Longrightarrow> s_userSessions s c = Some us \<Longrightarrow> ss_role us = Professor \<Longrightarrow>
   \<exists>room. s_rooms s (ss_roomKey us) = Some room \<and> s_professor room = Some c"
  unfolding simple_inv_def by blast

lemma simple_inv_slot:
  "simple_inv X s \<Longrightarrow> s_rooms s k = Some room \<Longrightarrow> s_professor room = Some p \<Longrightarrow> p \<notin> X \<Longrightarrow>
   p \<in> s_subscribed s k"
  unfolding simple_inv_def by blast

lemma simple_inv_students:
  "simple_inv X s \<Longrightarrow> s_rooms s k = Some room \<Longrightarrow> d \<in> set (s_students room) \<Longrightarrow> d \<notin> X \<Longrightarrow>
   d \<in> s_subscribed s k"
  unfolding simple_inv_def by blast

lemma inv_s_disc_prof:
  assumes inv: "simple_inv X s" and c: "c \<noteq> []" "c \<notin> X"
    and us: "s_userSessions s c = Some us" and role: "ss_role us = Professor"
    and room: "s_rooms s (ss_roomKey us) = Some room0"
  shows "simple_inv (insert c X) (fst (simple_disconnect s c))"
proof -
  have p0: "s_professor room0 = Some c"
    using simple_inv_professor [OF inv us role] room by simp
  show ?thesis
    unfolding simple_disconnect_professor [OF us role room]
  proof (rule simple_invI, goal_cases)
    case (1 c' us')
    then show ?case using simple_inv_session [OF inv, of c' us']
      by (auto simp: socket_leave_all_def split: if_splits)
  next
    case (2 c' us')
    then have s': "s_userSessions s c' = Some us'" and ne: "c' \<noteq> c"
      by (auto split: if_splits)
    from simple_inv_professor [OF inv s'] 2 obtain r where
      r: "s_rooms s (ss_roomKey us') = Some r" "s_professor r = Some c'" by auto
    with p0 room ne have "ss_roomKey us' \<noteq> ss_roomKey us" by auto
    with r show ?case by simp
  next
    case (3 k room p)
    then have "k \<noteq> ss_roomKey us" by (auto split: if_splits)
    with 3 simple_inv_slot [OF inv, of k room p] show ?case
      by (auto simp: socket_leave_all_def split: if_splits)
  next
    case (4 k room d)
    then have "\<exists>r. s_rooms s k = Some r \<and> d \<in> set (s_students r)"
      using room by (auto split: if_splits)
    with 4 simple_inv_students [OF inv, of k _ d] show ?case
      by (auto simp: socket_leave_all_def)
  qed
qed


lemma inv_s_disc_stud:
  assumes inv: "simple_inv X s" and c: "c \<noteq> []" "c \<notin> X"
    and us: "s_userSessions s c = Some us" and role: "ss_role us = Student"
    and room: "s_rooms s (ss_roomKey us) = Some room0"
  shows "simple_inv (insert c X) (fst (simple_disconnect s c))"
  unfolding simple_disconnect_student [OF us role room]
proof (rule simple_invI, goal_cases)
  case (1 c' us')
  then show ?case using simple_inv_session [OF inv, of c' us']
    by (auto simp: socket_leave_all_def split: if_splits)
next
  case (2 c' us')
  then have s': "s_userSessions s c' = Some us'" and ne: "c' \<noteq> c"
    by (auto split: if_splits)
  from simple_inv_professor [OF inv s'] 2 obtain r where
    r: "s_rooms s (ss_roomKey us') = Some r" "s_professor r = Some c'" by auto
  from simple_inv_session [OF inv s'] have "c' \<noteq> []" by simp
  with r room show ?case by (auto simp: js_truthy_def)
next
  case (3 k room p)
  then have "\<exists>r. s_rooms s k = Some r \<and> s_professor r = Some p"
    using room by (auto split: if_splits)
  with 3 simple_inv_slot [OF inv, of k _ p] show ?case
    by (auto simp: socket_leave_all_def)
next
  case (4 k room d)
  then have "\<exists>r. s_rooms s k = Some r \<and> d \<in> set (s_students r)"
    using room by (auto split: if_splits)
  with 4 simple_inv_students [OF inv, of k _ d] show ?case
    by (auto simp: socket_leave_all_def)
qed

lemma inv_s_disc:
  assumes "simple_inv X s" "c \<noteq> []" "c \<notin> X"
  shows "simple_inv (insert c X) (fst (simple_disconnect s c))"
proof (cases "s_userSessions s c")
  case None
  show ?thesis unfolding simple_disconnect_no_session [OF None]
    using assms None by (auto simp: simple_inv_def socket_leave_all_def)
next
  case (Some us)
  show ?thesis
  proof (cases "s_rooms s (ss_roomKey us)")
    case None
    show ?thesis unfolding simple_disconnect_no_room [OF Some None]
      using assms Some None
      by (auto simp: simple_inv_def socket_leave_all_def)
  next
    case room: (Some room0)
    show ?thesis
      using inv_s_disc_prof [OF assms Some _ room] inv_s_disc_stud [OF assms Some _ room]
      by (cases "ss_role us") auto
  qed
qed

lemma simple_professor_admit_state:
  "fst (simple_professor_admit s c now n k room) =
     s\<lparr>s_rooms := (s_rooms s)(k \<mapsto> room),
       s_subscribed := socket_join (s_subscribed s) c k,
       s_userSessions := (s_userSessions s)(c \<mapsto>
          \<lparr>ss_role = Professor, ss_name = trim n, ss_roomKey = k, ss_userId = c,
           ss_joinedAt = now\<rparr>)\<rparr>"
  by (simp add: simple_professor_admit_def Let_def)

lemma simple_join_professor_effect:
  "fst (simple_join_room_as_professor s c now d) = s \<or>
   (simple_join_room_as_professor s c now d
      = simple_professor_admit s c now (trim (the (pj_professorName d)))
          (toUpperCase (trim (the (pj_roomKey d))))
          (case s_rooms s (toUpperCase (trim (the (pj_roomKey d)))) of
             None \<Rightarrow> \<lparr>s_professor = Some c, s_students = [], s_history = [], s_userCount = 1,
                       s_createdAt = now, s_createdBy = trim (the (pj_professorName d))\<rparr>
           | Some room0 \<Rightarrow> room0\<lparr>s_professor := Some c,
                                  s_userCount := 1 + length (s_students room0)\<rparr>)
    \<and> (\<forall>room0. s_rooms s (toUpperCase (trim (the (pj_roomKey d)))) = Some room0 \<longrightarrow>
          \<not> js_truthy (s_professor room0) \<or> s_professor room0 = Some c))"
  unfolding simple_join_room_as_professor_def Let_def
  by (simp split: option.splits)

lemma inv_s_prof:
  assumes inv: "simple_inv X s" and c: "c \<noteq> []" "c \<notin> X"
  shows "simple_inv X (fst (simple_join_room_as_professor s c now d))"
proof -
  define n where "n = trim (the (pj_professorName d))"
  define k where "k = toUpperCase (trim (the (pj_roomKey d)))"
  define room where "room = (case s_rooms s k of
             None \<Rightarrow> \<lparr>s_professor = Some c, s_students = [], s_history = [], s_userCount = 1,
                       s_createdAt = now, s_createdBy = n\<rparr>
           | Some room0 \<Rightarrow> room0\<lparr>s_professor := Some c,
                                  s_userCount := 1 + length (s_students room0)\<rparr>)"
  have prof: "s_professor room = Some c"
    by (simp add: room_def split: option.splits)
  have studs: "s_students room = (case s_rooms s k of None \<Rightarrow> [] | Some room0 \<Rightarrow> s_students room0)"
    by (simp add: room_def split: option.splits)
  from simple_join_professor_effect [of s c now d]
  consider (rejected) "fst (simple_join_room_as_professor s c now d) = s"
    | (admitted) "simple_join_room_as_professor s c now d = simple_professor_admit s c now n k room"
        "\<forall>room0. s_rooms s k = Some room0 \<longrightarrow>
           \<not> js_truthy (s_professor room0) \<or> s_professor room0 = Some c"
    unfolding n_def k_def room_def by blast
  then show ?thesis
  proof cases
    case rejected
    with inv show ?thesis by simp
  next
    case admitted
    show ?thesis
      unfolding admitted(1) simple_professor_admit_state
    proof (rule simple_invI, goal_cases)
      case (1 c' us')
      then show ?case using simple_inv_session [OF inv, of c' us'] c
        by (auto simp: socket_join_def split: if_splits)
    next
      case (2 c' us')
      show ?case
      proof (cases "c' = c")
        case True
        with 2 prof show ?thesis by auto
      next
        case False
        with 2 have s': "s_userSessions s c' = Some us'" by simp
        from simple_inv_professor [OF inv s'] 2 obtain r where
          r: "s_rooms s (ss_roomKey us') = Some r" "s_professor r = Some c'" by auto
        from simple_inv_session [OF inv s'] have "c' \<noteq> []" by simp
        with r admitted(2) False have "ss_roomKey us' \<noteq> k"
          by (auto simp: js_truthy_def)
        with r show ?thesis by simp
      qed
    next
      case (3 k' room' p)
      show ?case
      proof (cases "k' = k")
        case True
        with 3 prof show ?thesis by (auto simp: socket_join_def)
      next
        case False
        with 3 simple_inv_slot [OF inv, of k' room' p] show ?thesis
          by (auto simp: socket_join_def)
      qed
    next
      case (4 k' room' d')
      show ?case
      proof (cases "k' = k")
        case True
        with 4 studs simple_inv_students [OF inv, of k _ d'] show ?thesis
          by (cases "s_rooms s k") (auto simp: socket_join_def)
      next
        case False
        with 4 simple_inv_students [OF inv, of k' room' d'] show ?thesis
          by (auto simp: socket_join_def)
      qed
    qed
  qed
qed

lemma inv_s_draw:
  assumes "simple_inv X s"
  shows "simple_inv X (fst (simple_draw_command s c now d))"
  using assms
  unfolding simple_inv_def simple_draw_command_def Let_def
  by (auto split: option.splits if_splits) (metis option.inject)+

lemma inv_s_clear:
  assumes "simple_inv X s"
  shows "simple_inv X (fst (simple_clear_canvas s c))"
  using assms
  unfolding simple_inv_def simple_clear_canvas_def Let_def
  by (auto split: option.splits if_splits) (metis option.inject)+

lemma inv_s_stud:
  assumes "simple_inv X s" "c \<noteq> []" "c \<notin> X"
  shows "simple_inv X (fst (simple_join_room_as_student s c now d))"
  using assms
  unfolding simple_inv_def simple_join_room_as_student_def Let_def
  apply (auto simp: socket_join_def split: option.splits if_splits)
  apply (metis option.inject)+
  done

subsection \<open>The robust variant\<close>

lemma robust_invI:
  assumes "\<And>c us. r_userSessions s c = Some us \<Longrightarrow> c \<in> r_subscribed s (rs_roomKey us)"
    and "\<And>c us. r_userSessions s c = Some us \<Longrightarrow> rs_role us = Professor \<Longrightarrow>
           \<exists>room. r_rooms s (rs_roomKey us) = Some room \<and> c \<in> fst ` set (r_professors room)"
    and "\<And>k room d. r_rooms s k = Some room \<Longrightarrow> d \<in> fst ` set (r_professors room) \<Longrightarrow> d \<notin> X \<Longrightarrow>
           d \<in> r_subscribed s k"
    and "\<And>k room d. r_rooms s k = Some room \<Longrightarrow> d \<in> fst ` set (r_students room) \<Longrightarrow> d \<notin> X \<Longrightarrow>
           d \<in> r_subscribed s k"
  shows "robust_inv X s"
  unfolding robust_inv_def
  by (intro conjI allI impI; (elim conjE)?; (rule assms; assumption))

lemma robust_inv_session:
  "robust_inv X s \<Longrightarrow> r_userSessions s c = Some us \<Longrightarrow> c \<in> r_subscribed s (rs_roomKey us)"
  unfolding robust_inv_def by simp

lemma robust_inv_professor:
  "robust_inv X s \<Longrightarrow> r_userSessions s c = Some us \<Longrightarrow> rs_role us = Professor \<Longrightarrow>
   \<exists>room. r_rooms s (rs_roomKey us) = Some room \<and> c \<in> fst ` set (r_professors room)"
  unfolding robust_inv_def by simp

lemma robust_inv_professors:
  "robust_inv X s \<Longrightarrow> r_rooms s k = Some room \<Longrightarrow> d \<in> fst ` set (r_professors room) \<Longrightarrow>
   d \<notin> X \<Longrightarrow> d \<in> r_subscribed s k"
  unfolding robust_inv_def by simp

lemma robust_inv_students:
  "robust_inv X s \<Longrightarrow> r_rooms s k = Some room \<Longrightarrow> d \<in> fst ` set (r_students room) \<Longrightarrow>
   d \<notin> X \<Longrightarrow> d \<in> r_subscribed s k"
  unfolding robust_inv_def by simp

lemma robust_professor_admit_state:
  "r_rooms s k = Some room0 \<Longrightarrow> length (r_professors room0) < 3 \<Longrightarrow>
   fst (robust_professor_admit s c now n k) =
     s\<lparr>r_rooms := (r_rooms s)(k \<mapsto>
          room0\<lparr>r_professors := map_set (r_professors room0) c
                    \<lparr>rp_name = trim n, rp_socketId = c, rp_joinedAt = now, rp_role = Professor\<rparr>,
                 r_metadata := (r_metadata room0)\<lparr>rm_lastActivity := now\<rparr>\<rparr>),
       r_subscribed := socket_join (r_subscribed s) c k,
       r_userSessions := (r_userSessions s)(c \<mapsto>
          \<lparr>rs_role = Professor, rs_name = trim n, rs_roomKey = k, rs_userId = c\<rparr>)\<rparr>"
  by (simp add: robust_professor_admit_def Let_def)

lemma robust_professor_admit_full:
  "r_rooms s k = Some room0 \<Longrightarrow> \<not> length (r_professors room0) < 3 \<Longrightarrow>
   robust_professor_admit s c now n k = (s, [(ToSocket c, R_RoomError ''PROFESSOR_LIMIT_REACHED'')])"
  by (simp add: robust_professor_admit_def Let_def)

lemma robust_join_professor_bad_name:
  "\<not> js_truthy (pj_professorName d) \<or> trim (the (pj_professorName d)) = [] \<Longrightarrow>
   robust_join_room_as_professor s c now gen d = (s, [(ToSocket c, R_RoomError ''INVALID_NAME'')])"
  by (auto simp: robust_join_room_as_professor_def Let_def)

lemma robust_join_professor_bad_key:
  "js_truthy (pj_professorName d) \<Longrightarrow> trim (the (pj_professorName d)) \<noteq> [] \<Longrightarrow>
   \<not> validateRoomKey (robust_roomKey d gen) \<Longrightarrow>
   robust_join_room_as_professor s c now gen d = (s, [(ToSocket c, R_RoomError ''INVALID_ROOM_KEY'')])"
  by (simp add: robust_join_room_as_professor_def Let_def)

lemma robust_join_professor_not_found:
  "js_truthy (pj_professorName d) \<Longrightarrow> trim (the (pj_professorName d)) \<noteq> [] \<Longrightarrow>
   validateRoomKey (robust_roomKey d gen) \<Longrightarrow>
   r_rooms s (toUpperCase (the (robust_roomKey d gen))) = None \<Longrightarrow>
   \<not> robust_createIfNotExists d \<Longrightarrow>
   robust_join_room_as_professor s c now gen d = (s, [(ToSocket c, R_RoomError ''ROOM_NOT_FOUND'')])"
  by (simp add: robust_join_room_as_professor_def Let_def)

lemma robust_join_professor_create:
  "js_truthy (pj_professorName d) \<Longrightarrow> trim (the (pj_professorName d)) \<noteq> [] \<Longrightarrow>
   validateRoomKey (robust_roomKey d gen) \<Longrightarrow>
   r_rooms s (toUpperCase (the (robust_roomKey d gen))) = None \<Longrightarrow>
   robust_createIfNotExists d \<Longrightarrow>
   robust_join_room_as_professor s c now gen d =
     robust_professor_admit
       (createRoom s now (toUpperCase (the (robust_roomKey d gen))) (the (pj_professorName d), c))
       c now (the (pj_professorName d)) (toUpperCase (the (robust_roomKey d gen)))"
  by (simp add: robust_join_room_as_professor_def Let_def)

lemma robust_join_professor_existing:
  "js_truthy (pj_professorName d) \<Longrightarrow> trim (the (pj_professorName d)) \<noteq> [] \<Longrightarrow>
   validateRoomKey (robust_roomKey d gen) \<Longrightarrow>
   r_rooms s (toUpperCase (the (robust_roomKey d gen))) = Some room0 \<Longrightarrow>
   robust_join_room_as_professor s c now gen d =
     robust_professor_admit s c now (the (pj_professorName d))
       (toUpperCase (the (robust_roomKey d gen)))"
  by (simp add: robust_join_room_as_professor_def Let_def)

lemma createRoom_rooms:
  "toUpperCase k = k \<Longrightarrow> createRoom s now k ci =
     s\<lparr>r_rooms := (r_rooms s)(k \<mapsto>
        \<lparr>r_professors = [], r_students = [], r_commands = [],
         r_metadata = \<lparr>rm_createdAt = now, rm_lastActivity = now,
                       rm_createdBy = ci, rm_roomKey = k\<rparr>\<rparr>)\<rparr>"
  by (simp add: createRoom_def Let_def)

lemma inv_r_admit:
  assumes inv: "robust_inv X s" and c: "c \<notin> X"
  shows "robust_inv X (fst (robust_professor_admit s c now n k))"
proof (cases "r_rooms s k")
  case None
  with inv show ?thesis by (simp add: robust_professor_admit_def)
next
  case (Some room0)
  show ?thesis
  proof (cases "length (r_professors room0) < 3")
    case False
    with inv show ?thesis by (simp add: robust_professor_admit_full [OF Some])
  next
    case True
    show ?thesis
      unfolding robust_professor_admit_state [OF Some True]
    proof (rule robust_invI, goal_cases)
      case (1 c' us')
      then show ?case using robust_inv_session [OF inv, of c' us']
        by (auto simp: socket_join_def split: if_splits)
    next
      case (2 c' us')
      show ?case
      proof (cases "c' = c")
        case True
        with 2 show ?thesis by auto
      next
        case False
        with 2 have s': "r_userSessions s c' = Some us'" by simp
        from robust_inv_professor [OF inv s'] 2 obtain r where
          r: "r_rooms s (rs_roomKey us') = Some r" "c' \<in> fst ` set (r_professors r)" by auto
        with Some show ?thesis by (cases "rs_roomKey us' = k") auto
      qed
    next
      case (3 k' room' d')
      show ?case
      proof (cases "k' = k")
        case True
        with 3 have "\<exists>pd. r_professors room' = map_set (r_professors room0) c pd"
          by auto
        then have "fst ` set (r_professors room') = insert c (fst ` set (r_professors room0))"
          by (elim exE) (simp only: keys_map_set)
        with 3 have "d' \<in> insert c (fst ` set (r_professors room0))" by simp
        with 3 True robust_inv_professors [OF inv Some, of d'] show ?thesis
          by (simp add: socket_join_def) blast
      next
        case False
        with 3 robust_inv_professors [OF inv, of k' room' d'] show ?thesis
          by (auto simp: socket_join_def)
      qed
    next
      case (4 k' room' d')
      show ?case
      proof (cases "k' = k")
        case True
        with 4 have "r_students room' = r_students room0" by auto
        with 4 have "d' \<in> fst ` set (r_students room0)" by simp
        with 4 True robust_inv_students [OF inv Some, of d'] show ?thesis
          by (simp add: socket_join_def)
      next
        case False
        with 4 robust_inv_students [OF inv, of k' room' d'] show ?thesis
          by (auto simp: socket_join_def)
      qed
    qed
  qed
qed

lemma inv_r_createRoom:
  assumes inv: "robust_inv X s" and k: "toUpperCase k = k" and absent: "r_rooms s k = None"
  shows "robust_inv X (createRoom s now k ci)"
  unfolding createRoom_rooms [OF k]
proof (rule robust_invI, goal_cases)
  case (1 c' us')
  then show ?case using robust_inv_session [OF inv, of c' us'] by simp
next
  case (2 c' us')
  with robust_inv_professor [OF inv, of c' us'] absent show ?case by auto
next
  case (3 k' room' d')
  with robust_inv_professors [OF inv, of k' room' d'] show ?case
    by (cases "k' = k") auto
next
  case (4 k' room' d')
  with robust_inv_students [OF inv, of k' room' d'] show ?case
    by (cases "k' = k") auto
qed

lemma inv_r_prof:
  assumes inv: "robust_inv X s" and c: "c \<notin> X"
  shows "robust_inv X (fst (robust_join_room_as_professor s c now gen d))"
proof (cases "\<not> js_truthy (pj_professorName d) \<or> trim (the (pj_professorName d)) = []")
  case True
  with inv show ?thesis by (simp add: robust_join_professor_bad_name)
next
  case name: False
  show ?thesis
  proof (cases "validateRoomKey (robust_roomKey d gen)")
    case False
    with name inv show ?thesis by (simp add: robust_join_professor_bad_key)
  next
    case key: True
    let ?k = "toUpperCase (the (robust_roomKey d gen))"
    show ?thesis
    proof (cases "r_rooms s ?k")
      case (Some room0)
      with name key inv c show ?thesis
        by (simp add: robust_join_professor_existing inv_r_admit)
    next
      case None
      show ?thesis
      proof (cases "robust_createIfNotExists d")
        case False
        with name key None inv show ?thesis
          by (simp add: robust_join_professor_not_found)
      next
        case True
        have "robust_inv X (createRoom s now ?k (the (pj_professorName d), c))"
          using inv None by (intro inv_r_createRoom) simp_all
        with name key None True c show ?thesis
          by (simp add: robust_join_professor_create inv_r_admit)
      qed
    qed
  qed
qed

lemma robust_join_student_effect:
  "fst (robust_join_room_as_student s c now d) = s \<or>
   (\<exists>room0. r_rooms s (toUpperCase (the (sj_roomKey d))) = Some room0 \<and>
      fst (robust_join_room_as_student s c now d) =
        s\<lparr>r_rooms := (r_rooms s)(toUpperCase (the (sj_roomKey d)) \<mapsto>
             room0\<lparr>r_students := map_set (r_students room0) c
                       \<lparr>rp_name = trim (the (sj_studentName d)), rp_socketId = c,
                        rp_joinedAt = now, rp_role = Student\<rparr>,
                    r_metadata := (r_metadata room0)\<lparr>rm_lastActivity := now\<rparr>\<rparr>),
          r_subscribed := socket_join (r_subscribed s) c (toUpperCase (the (sj_roomKey d))),
          r_userSessions := (r_userSessions s)(c \<mapsto>
             \<lparr>rs_role = Student, rs_name = trim (the (sj_studentName d)),
              rs_roomKey = toUpperCase (the (sj_roomKey d)), rs_userId = c\<rparr>)\<rparr>)"
proof (cases "r_rooms s (toUpperCase (the (sj_roomKey d)))")
  case None
  then show ?thesis by (simp add: robust_join_room_as_student_def Let_def)
next
  case (Some room0)
  then show ?thesis by (simp add: robust_join_room_as_student_def Let_def)
qed

lemma inv_r_stud:
  assumes inv: "robust_inv X s" and c: "c \<notin> X"
  shows "robust_inv X (fst (robust_join_room_as_student s c now d))"
proof -
  define k where "k = toUpperCase (the (sj_roomKey d))"
  from robust_join_student_effect [of s c now d]
  consider (rejected) "fst (robust_join_room_as_student s c now d) = s"
    | (joined) room0 pd us where "r_rooms s k = Some room0"
        "fst (robust_join_room_as_student s c now d) =
           s\<lparr>r_rooms := (r_rooms s)(k \<mapsto>
                room0\<lparr>r_students := map_set (r_students room0) c pd,
                       r_metadata := (r_metadata room0)\<lparr>rm_lastActivity := now\<rparr>\<rparr>),
             r_subscribed := socket_join (r_subscribed s) c k,
             r_userSessions := (r_userSessions s)(c \<mapsto> us)\<rparr>"
        "rs_roomKey us = k" "rs_role us = Student"
    unfolding k_def by (elim disjE exE conjE) auto
  then show ?thesis
  proof cases
    case rejected
    with inv show ?thesis by simp
  next
    case (joined room0 pd us)
    show ?thesis
      unfolding joined(2)
    proof (rule robust_invI, goal_cases)
      case (1 c' us')
      then show ?case using robust_inv_session [OF inv, of c' us'] joined(3)
        by (auto simp: socket_join_def split: if_splits)
    next
      case (2 c' us')
      with joined(4) have ne: "c' \<noteq> c" by auto
      with 2 have s': "r_userSessions s c' = Some us'" by simp
      from robust_inv_professor [OF inv s'] 2 obtain r where
        r: "r_rooms s (rs_roomKey us') = Some r" "c' \<in> fst ` set (r_professors r)" by auto
      with joined(1) show ?case by (cases "rs_roomKey us' = k") auto
    next
      case (3 k' room' d')
      show ?case
      proof (cases "k' = k")
        case True
        with 3 have "r_professors room' = r_professors room0" by auto
        with 3 have "d' \<in> fst ` set (r_professors room0)" by simp
        with 3 True robust_inv_professors [OF inv joined(1), of d'] show ?thesis
          by (simp add: socket_join_def)
      next
        case False
        with 3 robust_inv_professors [OF inv, of k' room' d'] show ?thesis
          by (auto simp: socket_join_def)
      qed
    next
      case (4 k' room' d')
      show ?case
      proof (cases "k' = k")
        case True
        with 4 have "r_students room' = map_set (r_students room0) c pd" by auto
        then have "fst ` set (r_students room') = insert c (fst ` set (r_students room0))"
          by (simp only: keys_map_set)
        with 4 have "d' \<in> insert c (fst ` set (r_students room0))" by simp
        with 4 True robust_inv_students [OF inv joined(1), of d'] show ?thesis
          by (simp add: socket_join_def) blast
      next
        case False
        with 4 robust_inv_students [OF inv, of k' room' d'] show ?thesis
          by (auto simp: socket_join_def)
      qed
    qed
  qed
qed

lemma robust_inv_rooms_update:
  assumes inv: "robust_inv X s" and room: "r_rooms s k = Some room0"
    and p: "fst ` set (r_professors room) = fst ` set (r_professors room0)"
    and st: "fst ` set (r_students room) = fst ` set (r_students room0)"
  shows "robust_inv X (s\<lparr>r_rooms := (r_rooms s)(k \<mapsto> room)\<rparr>)"
proof (rule robust_invI, goal_cases)
  case (1 c' us')
  then show ?case using robust_inv_session [OF inv, of c' us'] by simp
next
  case (2 c' us')
  with robust_inv_professor [OF inv, of c' us'] obtain r where
    r: "r_rooms s (rs_roomKey us') = Some r" "c' \<in> fst ` set (r_professors r)" by auto
  with room p show ?case by (cases "rs_roomKey us' = k") auto
next
  case (3 k' room' d')
  show ?case
  proof (cases "k' = k")
    case True
    with 3 p have "d' \<in> fst ` set (r_professors room0)" by auto
    with 3 True robust_inv_professors [OF inv room, of d'] show ?thesis by simp
  next
    case False
    with 3 robust_inv_professors [OF inv, of k' room' d'] show ?thesis by simp
  qed
next
  case (4 k' room' d')
  show ?case
  proof (cases "k' = k")
    case True
    with 4 st have "d' \<in> fst ` set (r_students room0)" by auto
    with 4 True robust_inv_students [OF inv room, of d'] show ?thesis by simp
  next
    case False
    with 4 robust_inv_students [OF inv, of k' room' d'] show ?thesis by simp
  qed
qed

lemma robust_draw_effect:
  "fst (robust_draw_command s c now d) = s \<or>
   (\<exists>k room0 cs. r_rooms s k = Some room0 \<and>
      fst (robust_draw_command s c now d) =
        s\<lparr>r_rooms := (r_rooms s)(k \<mapsto>
             room0\<lparr>r_commands := cs,
                    r_metadata := (r_metadata room0)\<lparr>rm_lastActivity := now\<rparr>\<rparr>)\<rparr>)"
  by (auto simp: robust_draw_command_def Let_def split: option.splits)

lemma robust_clear_effect:
  "fst (robust_clear_canvas s c now) = s \<or>
   (\<exists>k room0 cs. r_rooms s k = Some room0 \<and>
      fst (robust_clear_canvas s c now) =
        s\<lparr>r_rooms := (r_rooms s)(k \<mapsto>
             room0\<lparr>r_commands := cs,
                    r_metadata := (r_metadata room0)\<lparr>rm_lastActivity := now\<rparr>\<rparr>)\<rparr>)"
  by (auto simp: robust_clear_canvas_def Let_def split: option.splits)

lemma inv_r_draw:
  assumes inv: "robust_inv X s"
  shows "robust_inv X (fst (robust_draw_command s c now d))"
  using robust_draw_effect [of s c now d] inv
  by (elim disjE exE conjE) (simp_all add: robust_inv_rooms_update)

lemma inv_r_clear:
  assumes inv: "robust_inv X s"
  shows "robust_inv X (fst (robust_clear_canvas s c now))"
  using robust_clear_effect [of s c now] inv
  by (elim disjE exE conjE) (simp_all add: robust_inv_rooms_update)

lemma inv_r_timer:
  assumes inv: "robust_inv X s"
  shows "robust_inv X (robust_timer_fires s)"
proof (cases "r_timers s")
  case Nil
  with inv show ?thesis by (simp add: robust_timer_fires_def)
next
  case (Cons k rest)
  have t: "robust_inv X (s\<lparr>r_timers := rest\<rparr>)"
  proof (rule robust_invI, goal_cases)
    case (1 c' us')
    then show ?case using robust_inv_session [OF inv, of c' us'] by simp
  next
    case (2 c' us')
    then show ?case using robust_inv_professor [OF inv, of c' us'] by simp
  next
    case (3 k' room' d')
    then show ?case using robust_inv_professors [OF inv, of k' room' d'] by simp
  next
    case (4 k' room' d')
    then show ?case using robust_inv_students [OF inv, of k' room' d'] by simp
  qed
  show ?thesis
  proof (cases "\<exists>room. r_rooms s k = Some room \<and> r_professors room = [] \<and> r_students room = []")
    case False
    with Cons t show ?thesis
      by (auto simp: robust_timer_fires_def Let_def split: option.splits)
  next
    case True
    then obtain room where room: "r_rooms s k = Some room" "r_professors room = []"
      "r_students room = []" by blast
    with Cons have eq: "robust_timer_fires s = s\<lparr>r_timers := rest, r_rooms := (r_rooms s)(k := None)\<rparr>"
      by (simp add: robust_timer_fires_def Let_def)
    show ?thesis unfolding eq
    proof (rule robust_invI, goal_cases)
      case (1 c' us')
      then show ?case using robust_inv_session [OF inv, of c' us'] by simp
    next
      case (2 c' us')
      with robust_inv_professor [OF inv, of c' us'] obtain r where
        r: "r_rooms s (rs_roomKey us') = Some r" "c' \<in> fst ` set (r_professors r)" by auto
      with room show ?case by (cases "rs_roomKey us' = k") auto
    next
      case (3 k' room' d')
      with robust_inv_professors [OF inv, of k' room' d'] show ?case
        by (cases "k' = k") auto
    next
      case (4 k' room' d')
      with robust_inv_students [OF inv, of k' room' d'] show ?case
        by (cases "k' = k") auto
    qed
  qed
qed

lemma inv_r_sweep:
  assumes inv: "robust_inv X s"
  shows "robust_inv X (robust_cleanup s now)"
  unfolding robust_cleanup_def
proof (rule robust_invI, goal_cases)
  case (1 c' us')
  then show ?case using robust_inv_session [OF inv, of c' us'] by simp
next
  case (2 c' us')
  with robust_inv_professor [OF inv, of c' us'] obtain r where
    r: "r_rooms s (rs_roomKey us') = Some r" "c' \<in> fst ` set (r_professors r)" by auto
  then have "r_professors r \<noteq> []" by auto
  with r show ?case by simp
next
  case (3 k' room' d')
  then have "r_rooms s k' = Some room'" by (auto split: option.splits if_splits)
  with 3 robust_inv_professors [OF inv, of k' room' d'] show ?case by simp
next
  case (4 k' room' d')
  then have "r_rooms s k' = Some room'" by (auto split: option.splits if_splits)
  with 4 robust_inv_students [OF inv, of k' room' d'] show ?case by simp
qed

lemma robust_disconnect_no_session:
  "r_userSessions s c = None \<Longrightarrow>
   robust_disconnect s c now = (s\<lparr>r_subscribed := socket_leave_all (r_subscribed s) c\<rparr>, [])"
  by (simp add: robust_disconnect_def)

lemma robust_disconnect_no_room:
  "r_userSessions s c = Some us \<Longrightarrow> r_rooms s (rs_roomKey us) = None \<Longrightarrow>
   robust_disconnect s c now =
     (s\<lparr>r_subscribed := socket_leave_all (r_subscribed s) c,
        r_userSessions := (r_userSessions s)(c := None)\<rparr>, [])"
  by (simp add: robust_disconnect_def)

lemma robust_disconnect_state:
  "r_userSessions s c = Some us \<Longrightarrow> r_rooms s (rs_roomKey us) = Some room0 \<Longrightarrow>
   fst (robust_disconnect s c now) =
     s\<lparr>r_subscribed := socket_leave_all (r_subscribed s) c,
       r_rooms := (r_rooms s)(rs_roomKey us \<mapsto> robust_leave room0 (rs_role us) c now),
       r_timers := (if length (r_professors (robust_leave room0 (rs_role us) c now))
                       + length (r_students (robust_leave room0 (rs_role us) c now)) = 0
                    then r_timers s @ [rs_roomKey us] else r_timers s),
       r_userSessions := (r_userSessions s)(c := None)\<rparr>"
  by (simp add: robust_disconnect_def Let_def)

lemma inv_r_disc:
  assumes inv: "robust_inv X s" and c: "c \<notin> X"
  shows "robust_inv (insert c X) (fst (robust_disconnect s c now))"
proof (cases "r_userSessions s c")
  case None
  show ?thesis unfolding robust_disconnect_no_session [OF None]
  proof (rule robust_invI, goal_cases)
    case (1 c' us')
    then show ?case using robust_inv_session [OF inv, of c' us'] None
      by (auto simp: socket_leave_all_def)
  next
    case (2 c' us')
    then show ?case using robust_inv_professor [OF inv, of c' us'] by simp
  next
    case (3 k' room' d')
    then show ?case using robust_inv_professors [OF inv, of k' room' d']
      by (simp add: socket_leave_all_def)
  next
    case (4 k' room' d')
    then show ?case using robust_inv_students [OF inv, of k' room' d']
      by (simp add: socket_leave_all_def)
  qed
next
  case (Some us)
  show ?thesis
  proof (cases "r_rooms s (rs_roomKey us)")
    case None
    show ?thesis unfolding robust_disconnect_no_room [OF Some None]
    proof (rule robust_invI, goal_cases)
      case (1 c' us')
      then show ?case using robust_inv_session [OF inv, of c' us']
        by (auto simp: socket_leave_all_def split: if_splits)
    next
      case (2 c' us')
      then show ?case using robust_inv_professor [OF inv, of c' us']
        by (auto split: if_splits)
    next
      case (3 k' room' d')
      then show ?case using robust_inv_professors [OF inv, of k' room' d']
        by (simp add: socket_leave_all_def)
    next
      case (4 k' room' d')
      then show ?case using robust_inv_students [OF inv, of k' room' d']
        by (simp add: socket_leave_all_def)
    qed
  next
    case room: (Some room0)
    define room where "room = robust_leave room0 (rs_role us) c now"
    have p: "fst ` set (r_professors room) \<subseteq> fst ` set (r_professors room0)"
      and p': "fst ` set (r_professors room0) - {c} \<subseteq> fst ` set (r_professors room)"
      and st: "fst ` set (r_students room) \<subseteq> fst ` set (r_students room0)"
      by (auto simp: room_def robust_leave_def)
    show ?thesis
      unfolding robust_disconnect_state [OF Some room] room_def [symmetric]
    proof (rule robust_invI, goal_cases)
      case (1 c' us')
      then show ?case using robust_inv_session [OF inv, of c' us']
        by (auto simp: socket_leave_all_def split: if_splits)
    next
      case (2 c' us')
      then have s': "r_userSessions s c' = Some us'" and ne: "c' \<noteq> c"
        by (auto split: if_splits)
      from robust_inv_professor [OF inv s'] 2 obtain r where
        r: "r_rooms s (rs_roomKey us') = Some r" "c' \<in> fst ` set (r_professors r)" by auto
      show ?case
      proof (cases "rs_roomKey us' = rs_roomKey us")
        case True
        with r room ne p' show ?thesis by auto
      next
        case False
        with r show ?thesis by simp
      qed
    next
      case (3 k' room' d')
      show ?case
      proof (cases "k' = rs_roomKey us")
        case True
        with 3 p have "d' \<in> fst ` set (r_professors room0)" by auto
        with 3 True robust_inv_professors [OF inv room, of d'] show ?thesis
          by (simp add: socket_leave_all_def)
      next
        case False
        with 3 robust_inv_professors [OF inv, of k' room' d'] show ?thesis
          by (simp add: socket_leave_all_def)
      qed
    next
      case (4 k' room' d')
      show ?case
      proof (cases "k' = rs_roomKey us")
        case True
        with 4 st have "d' \<in> fst ` set (r_students room0)" by auto
        with 4 True robust_inv_students [OF inv room, of d'] show ?thesis
          by (simp add: socket_leave_all_def)
      next
        case False
        with 4 robust_inv_students [OF inv, of k' room' d'] show ?thesis
          by (simp add: socket_leave_all_def)
      qed
    qed
  qed
qed


subsection \<open>Every state of a run satisfies the invariant\<close>

lemma robust_inv_init: "robust_inv {} r_init"
  by (simp add: robust_inv_def r_init_def)

lemma simple_inv_init: "simple_inv {} s_init"
  by (simp add: simple_inv_def s_init_def)

lemma robust_reach_inv: "robust_reach X s \<Longrightarrow> robust_inv X s"
proof (induction rule: robust_reach.induct)
  case r_start
  show ?case by (rule robust_inv_init)
next
  case (r_event X s c e)
  then show ?case
    by (cases e) (simp_all add: inv_r_prof inv_r_stud inv_r_draw inv_r_clear)
next
  case (r_close X s c now)
  then show ?case by (simp add: inv_r_disc)
next
  case (r_timer X s)
  then show ?case by (simp add: inv_r_timer)
next
  case (r_sweep X s now)
  then show ?case by (simp add: inv_r_sweep)
qed

lemma simple_reach_inv: "simple_reach X s \<Longrightarrow> simple_inv X s"
proof (induction rule: simple_reach.induct)
  case s_start
  show ?case by (rule simple_inv_init)
next
  case (s_event X s c e)
  then show ?case
    by (cases e) (simp_all add: inv_s_prof inv_s_stud inv_s_draw inv_s_clear)
next
  case (s_close X s c)
  then show ?case by (simp add: inv_s_disc)
qed

section \<open>The classroom session, evaluated\<close>

lemmas simple_handler_defs = simple_join_room_as_professor_def simple_professor_admit_def
  simple_join_room_as_student_def simple_draw_command_def simple_clear_canvas_def
  simple_disconnect_def simple_user_list_update_def simple_studentList_def simple_drawCommand_def
  socket_join_def socket_leave_all_def set_add_def Let_def

lemmas robust_handler_defs = robust_join_room_as_professor_def robust_professor_admit_def
  robust_join_room_as_student_def robust_draw_command_def robust_clear_canvas_def
  robust_disconnect_def robust_leave_def robust_enrichedCommand_def robust_createIfNotExists_def
  robust_roomKey_def validateRoomKey_def getRoomStats_def createRoom_def robust_user_list_def
  map_delete_def socket_join_def socket_leave_all_def Let_def

lemma s_opened_eq:
  "s_opened =
     \<lparr>s_rooms = [''MATH101'' \<mapsto>
          \<lparr>s_professor = Some ''P1'', s_students = [], s_history = [], s_userCount = 1,
           s_createdAt = 0, s_createdBy = ''Ann''\<rparr>],
      s_userSessions = [''P1'' \<mapsto>
          \<lparr>ss_role = Professor, ss_name = ''Ann'', ss_roomKey = ''MATH101'',
           ss_userId = ''P1'', ss_joinedAt = 0\<rparr>],
      s_subscribed = (\<lambda>k. {})(''MATH101'' := {''P1''})\<rparr>"
  by (simp add: s_opened_def s_init_def ann_opens_def simple_handler_defs char_eval)

lemma s_class_eq:
  "s_class =
     \<lparr>s_rooms = [''MATH101'' \<mapsto>
          \<lparr>s_professor = Some ''P1'', s_students = [''S1''], s_history = [], s_userCount = 2,
           s_createdAt = 0, s_createdBy = ''Ann''\<rparr>],
      s_userSessions = [''P1'' \<mapsto>
          \<lparr>ss_role = Professor, ss_name = ''Ann'', ss_roomKey = ''MATH101'',
           ss_userId = ''P1'', ss_joinedAt = 0\<rparr>,
        ''S1'' \<mapsto>
          \<lparr>ss_role = Student, ss_name = ''Bob'', ss_roomKey = ''MATH101'',
           ss_userId = ''S1'', ss_joinedAt = 0\<rparr>],
      s_subscribed = (\<lambda>k. {})(''MATH101'' := {''S1'', ''P1''})\<rparr>"
  by (simp add: s_class_def s_opened_eq bob_joins_def simple_handler_defs char_eval numeral_2_eq_2)

lemma r_opened_eq:
  "r_opened =
     \<lparr>r_rooms = [''MATH101'' \<mapsto>
          \<lparr>r_professors = [(''P1'', \<lparr>rp_name = ''Ann'', rp_socketId = ''P1'', rp_joinedAt = 0,
                                     rp_role = Professor\<rparr>)],
           r_students = [], r_commands = [],
           r_metadata = \<lparr>rm_createdAt = 0, rm_lastActivity = 0,
                         rm_createdBy = (''Ann'', ''P1''), rm_roomKey = ''MATH101''\<rparr>\<rparr>],
      r_userSessions = [''P1'' \<mapsto>
          \<lparr>rs_role = Professor, rs_name = ''Ann'', rs_roomKey = ''MATH101'', rs_userId = ''P1''\<rparr>],
      r_subscribed = (\<lambda>k. {})(''MATH101'' := {''P1''}), r_timers = []\<rparr>"
  by (simp add: r_opened_def r_init_def ann_opens_def robust_handler_defs char_eval)

lemma r_class_eq:
  "r_class =
     \<lparr>r_rooms = [''MATH101'' \<mapsto>
          \<lparr>r_professors = [(''P1'', \<lparr>rp_name = ''Ann'', rp_socketId = ''P1'', rp_joinedAt = 0,
                                     rp_role = Professor\<rparr>)],
           r_students = [(''S1'', \<lparr>rp_name = ''Bob'', rp_socketId = ''S1'', rp_joinedAt = 0,
                                   rp_role = Student\<rparr>)],
           r_commands = [],
           r_metadata = \<lparr>rm_createdAt = 0, rm_lastActivity = 0,
                         rm_createdBy = (''Ann'', ''P1''), rm_roomKey = ''MATH101''\<rparr>\<rparr>],
      r_userSessions = [''P1'' \<mapsto>
          \<lparr>rs_role = Professor, rs_name = ''Ann'', rs_roomKey = ''MATH101'', rs_userId = ''P1''\<rparr>,
        ''S1'' \<mapsto>
          \<lparr>rs_role = Student, rs_name = ''Bob'', rs_roomKey = ''MATH101'', rs_userId = ''S1''\<rparr>],
      r_subscribed = (\<lambda>k. {})(''MATH101'' := {''S1'', ''P1''}), r_timers = []\<rparr>"
  by (simp add: r_class_def r_opened_eq bob_joins_def robust_handler_defs char_eval)

lemma s_opened_reach: "simple_reach {} s_opened"
  unfolding s_opened_def by (rule simple_reach.s_event [OF simple_reach.s_start]) simp_all

lemma s_class_reach: "simple_reach {} s_class"
  unfolding s_class_def by (rule simple_reach.s_event [OF s_opened_reach]) simp_all

lemma r_opened_reach: "robust_reach {} r_opened"
  unfolding r_opened_def by (rule robust_reach.r_event [OF robust_reach.r_start]) simp_all

lemma r_class_reach: "robust_reach {} r_class"
  unfolding r_class_def by (rule robust_reach.r_event [OF r_opened_reach]) simp_all

lemma s_board_eq:
  "n \<le> 1000 \<Longrightarrow>
   s_board n =
     \<lparr>s_rooms = [''MATH101'' \<mapsto>
          \<lparr>s_professor = Some ''P1'', s_students = [], s_history = replicate n s_stroke,
           s_userCount = 1, s_createdAt = 0, s_createdBy = ''Ann''\<rparr>],
      s_userSessions = [''P1'' \<mapsto>
          \<lparr>ss_role = Professor, ss_name = ''Ann'', ss_roomKey = ''MATH101'',
           ss_userId = ''P1'', ss_joinedAt = 0\<rparr>],
      s_subscribed = (\<lambda>k. {})(''MATH101'' := {''P1''})\<rparr>"
proof (induction n)
  case 0
  show ?case by (simp add: s_board_def s_opened_eq) (simp add: fun_eq_iff)
next
  case (Suc n)
  from Suc.prems have "n \<le> 1000" by simp
  note ih = Suc.IH [OF this]
  have "s_board (Suc n) = fst (simple_draw_command (s_board n) ''P1'' 0 a_stroke)"
    by (simp add: s_board_def)
  also have "\<dots> =
     \<lparr>s_rooms = [''MATH101'' \<mapsto>
          \<lparr>s_professor = Some ''P1'', s_students = [], s_history = replicate (Suc n) s_stroke,
           s_userCount = 1, s_createdAt = 0, s_createdBy = ''Ann''\<rparr>],
      s_userSessions = [''P1'' \<mapsto>
          \<lparr>ss_role = Professor, ss_name = ''Ann'', ss_roomKey = ''MATH101'',
           ss_userId = ''P1'', ss_joinedAt = 0\<rparr>],
      s_subscribed = (\<lambda>k. {})(''MATH101'' := {''P1''})\<rparr>"
    unfolding ih using Suc.prems
    by (simp add: simple_draw_command_def simple_drawCommand_def a_stroke_def s_stroke_def
        js_truthy_def Let_def replicate_append_same)
  finally show ?case .
qed

lemma r_board_eq:
  "n \<le> 1000 \<Longrightarrow>
   r_board n =
     \<lparr>r_rooms = [''MATH101'' \<mapsto>
          \<lparr>r_professors = [(''P1'', \<lparr>rp_name = ''Ann'', rp_socketId = ''P1'', rp_joinedAt = 0,
                                     rp_role = Professor\<rparr>)],
           r_students = [], r_commands = replicate n r_stroke,
           r_metadata = \<lparr>rm_createdAt = 0, rm_lastActivity = 0,
                         rm_createdBy = (''Ann'', ''P1''), rm_roomKey = ''MATH101''\<rparr>\<rparr>],
      r_userSessions = [''P1'' \<mapsto>
          \<lparr>rs_role = Professor, rs_name = ''Ann'', rs_roomKey = ''MATH101'', rs_userId = ''P1''\<rparr>],
      r_subscribed = (\<lambda>k. {})(''MATH101'' := {''P1''}), r_timers = []\<rparr>"
proof (induction n)
  case 0
  show ?case by (simp add: r_board_def r_opened_eq) (simp add: fun_eq_iff)
next
  case (Suc n)
  from Suc.prems have "n \<le> 1000" by simp
  note ih = Suc.IH [OF this]
  have "r_board (Suc n) = fst (robust_draw_command (r_board n) ''P1'' 0 (Some a_command))"
    by (simp add: r_board_def)
  also have "\<dots> =
     \<lparr>r_rooms = [''MATH101'' \<mapsto>
          \<lparr>r_professors = [(''P1'', \<lparr>rp_name = ''Ann'', rp_socketId = ''P1'', rp_joinedAt = 0,
                                     rp_role = Professor\<rparr>)],
           r_students = [], r_commands = replicate (Suc n) r_stroke,
           r_metadata = \<lparr>rm_createdAt = 0, rm_lastActivity = 0,
                         rm_createdBy = (''Ann'', ''P1''), rm_roomKey = ''MATH101''\<rparr>\<rparr>],
      r_userSessions = [''P1'' \<mapsto>
          \<lparr>rs_role = Professor, rs_name = ''Ann'', rs_roomKey = ''MATH101'', rs_userId = ''P1''\<rparr>],
      r_subscribed = (\<lambda>k. {})(''MATH101'' := {''P1''}), r_timers = []\<rparr>"
    unfolding ih using Suc.prems
    by (simp add: robust_draw_command_def robust_enrichedCommand_def a_command_def r_stroke_def
        js_truthy_def substring8_def Let_def replicate_append_same)
  finally show ?case .
qed

lemma s_board_reach: "simple_reach {} (s_board n)"
proof (induction n)
  case 0
  show ?case using s_opened_reach by (simp add: s_board_def)
next
  case (Suc n)
  have "s_board (Suc n) = fst (simple_step (s_board n) ''P1'' (S_Draw 0 a_stroke))"
    by (simp add: s_board_def)
  with simple_reach.s_event [OF Suc, of "''P1''" "S_Draw 0 a_stroke"] show ?case by simp
qed

lemma r_board_reach: "robust_reach {} (r_board n)"
proof (induction n)
  case 0
  show ?case using r_opened_reach by (simp add: r_board_def)
next
  case (Suc n)
  have "r_board (Suc n) = fst (robust_step (r_board n) ''P1'' (R_Draw 0 (Some a_command)))"
    by (simp add: r_board_def)
  with robust_reach.r_event [OF Suc, of "''P1''" "R_Draw 0 (Some a_command)"] show ?case by simp
qed

lemma s_left_eq:
  "s_left =
     \<lparr>s_rooms = [''MATH101'' \<mapsto>
          \<lparr>s_professor = None, s_students = [''S1''], s_history = [], s_userCount = 1,
           s_createdAt = 0, s_createdBy = ''Ann''\<rparr>],
      s_userSessions = [''S1'' \<mapsto>
          \<lparr>ss_role = Student, ss_name = ''Bob'', ss_roomKey = ''MATH101'',
           ss_userId = ''S1'', ss_joinedAt = 0\<rparr>],
      s_subscribed = (\<lambda>k. {})(''MATH101'' := {''S1''})\<rparr>"
  by (simp add: s_left_def s_class_eq simple_handler_defs char_eval fun_eq_iff) auto

lemma s_left_reach: "simple_reach {''P1''} s_left"
  unfolding s_left_def using simple_reach.s_close [OF s_class_reach, of "''P1''"] by simp


lemma r_away_eq:
  "r_rooms r_away = [''MATH101'' \<mapsto>
      \<lparr>r_professors = [], r_students = [], r_commands = [r_stroke],
       r_metadata = \<lparr>rm_createdAt = 0, rm_lastActivity = 1000,
                     rm_createdBy = (''Ann'', ''P1''), rm_roomKey = ''MATH101''\<rparr>\<rparr>]"
  "r_userSessions r_away = Map.empty"
  "r_timers r_away = [''MATH101'']"
  by (simp_all add: r_away_def r_board_eq robust_handler_defs)

lemma r_away_reach: "robust_reach {''P1''} r_away"
  unfolding r_away_def using robust_reach.r_close [OF r_board_reach, of "''P1''" 1 1000] by simp

lemma r_back_eq:
  "r_rooms r_back = [''MATH101'' \<mapsto>
      \<lparr>r_professors = [(''P2'', \<lparr>rp_name = ''Ann'', rp_socketId = ''P2'', rp_joinedAt = 5000,
                                 rp_role = Professor\<rparr>)],
       r_students = [], r_commands = [r_stroke],
       r_metadata = \<lparr>rm_createdAt = 0, rm_lastActivity = 5000,
                     rm_createdBy = (''Ann'', ''P1''), rm_roomKey = ''MATH101''\<rparr>\<rparr>]"
  "r_userSessions r_back = [''P2'' \<mapsto>
      \<lparr>rs_role = Professor, rs_name = ''Ann'', rs_roomKey = ''MATH101'', rs_userId = ''P2''\<rparr>]"
  "r_timers r_back = [''MATH101'']"
  "snd (robust_step r_away ''P2'' (R_JoinProfessor 5000 ''GEN123'' ann_opens)) =
     [(ToSocket ''P2'', R_RoomJoined ''MATH101'' Professor ''Ann'' 1 1 0),
      (ToSocket ''P2'', R_RoomHistory [r_stroke] 1),
      (ToRoom ''MATH101'', R_UserListUpdate [(''Ann'', ''P2'')] [] 1)]"
  by (simp_all add: r_back_def r_away_eq ann_opens_def robust_handler_defs char_eval)

lemma r_back_reach: "robust_reach {''P1''} r_back"
  unfolding r_back_def
  by (rule robust_reach.r_event [OF r_away_reach]) simp_all

lemma r_away_again_eq:
  "r_rooms r_away_again = [''MATH101'' \<mapsto>
      \<lparr>r_professors = [], r_students = [], r_commands = [r_stroke],
       r_metadata = \<lparr>rm_createdAt = 0, rm_lastActivity = 20000,
                     rm_createdBy = (''Ann'', ''P1''), rm_roomKey = ''MATH101''\<rparr>\<rparr>]"
  "r_userSessions r_away_again = Map.empty"
  "r_timers r_away_again = [''MATH101'', ''MATH101'']"
  by (simp_all add: r_away_again_def r_back_eq robust_handler_defs)

lemma r_away_again_reach: "robust_reach {''P2'', ''P1''} r_away_again"
  unfolding r_away_again_def
  using robust_reach.r_close [OF r_back_reach, of "''P2''" 20000] by simp

lemma r_stale_eq:
  "r_rooms r_stale = Map.empty"
  "r_userSessions r_stale = Map.empty"
  "r_timers r_stale = [''MATH101'']"
  by (simp_all add: r_stale_def robust_timer_fires_def r_away_again_eq Let_def)

lemma r_stale_reach: "robust_reach {''P2'', ''P1''} r_stale"
  unfolding r_stale_def by (rule robust_reach.r_timer [OF r_away_again_reach])
section \<open>What the handlers do, branch by branch\<close>

lemma simple_draw_ok:
  assumes "s_userSessions s c = Some us" "ss_role us = Professor"
    "s_rooms s (ss_roomKey us) = Some room" "dd_path d = Some path" "path \<noteq> []"
  shows "simple_draw_command s c now d =
     (s\<lparr>s_rooms := (s_rooms s)(ss_roomKey us \<mapsto> room\<lparr>s_history :=
          drop (if length (s_history room) < 1000 then 0 else length (s_history room) - 499)
            (s_history room) @ [simple_drawCommand c now us d path]\<rparr>)\<rparr>,
      [(ToRoomExcept (ss_roomKey us) c, S_DrawCommand (simple_drawCommand c now us d path))])"
  using assms by (simp add: simple_draw_command_def Let_def slice_last_def)

lemma robust_draw_ok:
  assumes "r_userSessions s c = Some us" "rs_role us = Professor"
    "r_rooms s (rs_roomKey us) = Some room" "js_truthy (ci_type cmd)" "ci_path cmd \<noteq> None"
  shows "robust_draw_command s c now (Some cmd) =
     (s\<lparr>r_rooms := (r_rooms s)(rs_roomKey us \<mapsto> room\<lparr>r_commands :=
          drop (if length (r_commands room) < 1000 then 0 else length (r_commands room) - 999)
            (r_commands room) @ [robust_enrichedCommand c now us cmd],
          r_metadata := (r_metadata room)\<lparr>rm_lastActivity := now\<rparr>\<rparr>)\<rparr>,
      [(ToRoomExcept (rs_roomKey us) c, R_DrawCommand (robust_enrichedCommand c now us cmd))])"
  using assms by (simp add: robust_draw_command_def Let_def slice_last_def)

lemma simple_occupants_subscribed:
  assumes "simple_inv X s" "s_rooms s k = Some room" "x \<in> simple_occupants room" "x \<notin> X"
  shows "x \<in> s_subscribed s k"
  using assms simple_inv_slot [of X s k room x] simple_inv_students [of X s k room x]
  by (auto simp: simple_occupants_def split: option.splits)

lemma robust_occupants_subscribed:
  assumes "robust_inv X s" "r_rooms s k = Some room" "x \<in> robust_occupants room" "x \<notin> X"
  shows "x \<in> r_subscribed s k"
  using assms robust_inv_professors [of X s k room x] robust_inv_students [of X s k room x]
  unfolding robust_occupants_def by blast

lemma simple_clear_ok:
  assumes "s_userSessions s c = Some us" "ss_role us = Professor"
    "s_rooms s (ss_roomKey us) = Some room"
  shows "simple_clear_canvas s c =
     (s\<lparr>s_rooms := (s_rooms s)(ss_roomKey us \<mapsto> room\<lparr>s_history := []\<rparr>)\<rparr>,
      [(ToRoom (ss_roomKey us), S_CanvasCleared (ss_name us))])"
  using assms by (simp add: simple_clear_canvas_def Let_def)

lemma robust_clear_ok:
  assumes "r_userSessions s c = Some us" "rs_role us = Professor"
    "r_rooms s (rs_roomKey us) = Some room"
  shows "robust_clear_canvas s c now =
     (s\<lparr>r_rooms := (r_rooms s)(rs_roomKey us \<mapsto>
          room\<lparr>r_commands := [], r_metadata := (r_metadata room)\<lparr>rm_lastActivity := now\<rparr>\<rparr>)\<rparr>,
      [(ToRoom (rs_roomKey us), R_CanvasCleared (substring8 c) (rs_name us))])"
  using assms by (simp add: robust_clear_canvas_def Let_def)

lemma robust_professor_admit_ok:
  "r_rooms s k = Some room0 \<Longrightarrow> length (r_professors room0) < 3 \<Longrightarrow>
   snd (robust_professor_admit s c now n k) =
     [(ToSocket c, R_RoomJoined k Professor (trim n)
         (length (map_set (r_professors room0) c
            \<lparr>rp_name = trim n, rp_socketId = c, rp_joinedAt = now, rp_role = Professor\<rparr>)
          + length (r_students room0))
         (length (map_set (r_professors room0) c
            \<lparr>rp_name = trim n, rp_socketId = c, rp_joinedAt = now, rp_role = Professor\<rparr>))
         (length (r_students room0)))]
     @ (if r_commands room0 \<noteq> []
        then [(ToSocket c, R_RoomHistory (r_commands room0) (length (r_commands room0)))]
        else [])
     @ [(ToRoom k,
         R_UserListUpdate
           (robust_user_list (map_set (r_professors room0) c
              \<lparr>rp_name = trim n, rp_socketId = c, rp_joinedAt = now, rp_role = Professor\<rparr>))
           (robust_user_list (r_students room0))
           (length (map_set (r_professors room0) c
              \<lparr>rp_name = trim n, rp_socketId = c, rp_joinedAt = now, rp_role = Professor\<rparr>)
            + length (r_students room0)))]"
  by (simp add: robust_professor_admit_def getRoomStats_def Let_def)

lemma robust_timer_keeps_occupied:
  assumes "r_rooms s k = Some room" "r_professors room \<noteq> [] \<or> r_students room \<noteq> []"
  shows "r_rooms (robust_timer_fires s) k = Some room"
  using assms by (auto simp: robust_timer_fires_def Let_def split: list.splits option.splits)

lemma robust_timers_keep_occupied:
  assumes "r_rooms s k = Some room" "r_professors room \<noteq> [] \<or> r_students room \<noteq> []"
  shows "r_rooms ((robust_timer_fires ^^ n) s) k = Some room"
  using assms by (induction n) (simp_all add: robust_timer_keeps_occupied)

lemma map_set_not_Nil [simp]: "map_set xs k v \<noteq> []"
  by (cases xs) (auto split: if_splits)

lemma length_map_delete_le: "length (map_delete xs k) \<le> length xs"
  by (simp add: map_delete_def)








lemma simple_professor_admit_joined:
  assumes "(ToSocket c, S_RoomJoined kb n r) \<in> set (snd (simple_professor_admit s c now p k room))"
  shows "k = kb \<and> r = Professor"
  using assms by (auto simp: simple_professor_admit_def Let_def split: if_splits)

lemma simple_join_professor_joined:
  assumes "(ToSocket c, S_RoomJoined kb n r) \<in> set (snd (simple_join_room_as_professor s c now d))"
  shows "(\<exists>ub. s_userSessions (fst (simple_join_room_as_professor s c now d)) c = Some ub
            \<and> ss_roomKey ub = kb \<and> ss_role ub = r)
         \<and> (\<forall>k. k \<noteq> kb \<longrightarrow>
               s_rooms (fst (simple_join_room_as_professor s c now d)) k = s_rooms s k)"
proof -
  from simple_join_professor_effect [of s c now d]
  consider (rejected) err where "simple_join_room_as_professor s c now d =
        (s, [(ToSocket c, S_JoinAttemptReceived), (ToSocket c, S_RoomError err)])"
    | (admitted) p k room where
        "simple_join_room_as_professor s c now d = simple_professor_admit s c now p k room"
    unfolding simple_join_room_as_professor_def Let_def
    by (auto split: option.splits if_splits)
  then show ?thesis
  proof cases
    case rejected
    with assms show ?thesis by simp
  next
    case (admitted p k room)
    with assms simple_professor_admit_joined [of c kb n r s now p k room]
    have "k = kb" "r = Professor" by simp_all
    then show ?thesis
      unfolding admitted by (simp add: simple_professor_admit_state)
  qed
qed


lemma simple_join_student_joined:
  assumes "(ToSocket c, S_RoomJoined kb n r) \<in> set (snd (simple_join_room_as_student s c now d))"
  shows "(\<exists>ub. s_userSessions (fst (simple_join_room_as_student s c now d)) c = Some ub
            \<and> ss_roomKey ub = kb \<and> ss_role ub = r)
         \<and> (\<forall>k. k \<noteq> kb \<longrightarrow>
               s_rooms (fst (simple_join_room_as_student s c now d)) k = s_rooms s k)"
  using assms unfolding simple_join_room_as_student_def Let_def
  by (auto split: option.splits if_splits)

lemma simple_other_events_not_joined:
  "(ToSocket c, S_RoomJoined kb n r) \<notin> set (snd (simple_draw_command s c now d))"
  "(ToSocket c, S_RoomJoined kb n r) \<notin> set (snd (simple_clear_canvas s c))"
  "(ToSocket c, S_RoomJoined kb n r) \<notin> set (snd (simple_disconnect s c))"
  by (auto simp: simple_draw_command_def simple_clear_canvas_def simple_disconnect_def
      simple_user_list_update_def Let_def split: option.splits if_splits prod.splits)

lemma robust_professor_admit_joined:
  assumes "(ToSocket c, R_RoomJoined kb r nm n p st)
             \<in> set (snd (robust_professor_admit s c now pn k))"
  shows "k = kb \<and> r = Professor
         \<and> (\<exists>ub. r_userSessions (fst (robust_professor_admit s c now pn k)) c = Some ub
                \<and> rs_roomKey ub = kb \<and> rs_role ub = r)
         \<and> (\<forall>k'. k' \<noteq> kb \<longrightarrow>
               r_rooms (fst (robust_professor_admit s c now pn k)) k' = r_rooms s k')"
  using assms unfolding robust_professor_admit_def Let_def
  by (auto split: option.splits if_splits)

lemma robust_join_professor_joined:
  assumes "(ToSocket c, R_RoomJoined kb r nm n p st)
             \<in> set (snd (robust_join_room_as_professor s c now gen d))"
  shows "(\<exists>ub. r_userSessions (fst (robust_join_room_as_professor s c now gen d)) c = Some ub
            \<and> rs_roomKey ub = kb \<and> rs_role ub = r)
         \<and> (\<forall>k. k \<noteq> kb \<longrightarrow>
               r_rooms (fst (robust_join_room_as_professor s c now gen d)) k = r_rooms s k)"
proof (cases "\<not> js_truthy (pj_professorName d) \<or> trim (the (pj_professorName d)) = []")
  case True
  with assms show ?thesis by (simp add: robust_join_professor_bad_name)
next
  case name: False
  show ?thesis
  proof (cases "validateRoomKey (robust_roomKey d gen)")
    case False
    with name assms show ?thesis by (simp add: robust_join_professor_bad_key)
  next
    case key: True
    let ?k = "toUpperCase (the (robust_roomKey d gen))"
    let ?pn = "the (pj_professorName d)"
    show ?thesis
    proof (cases "r_rooms s ?k")
      case (Some room0)
      with name key have eq: "robust_join_room_as_professor s c now gen d
          = robust_professor_admit s c now ?pn ?k"
        by (simp add: robust_join_professor_existing)
      from assms have "(ToSocket c, R_RoomJoined kb r nm n p st)
             \<in> set (snd (robust_professor_admit s c now ?pn ?k))"
        unfolding eq .
      from robust_professor_admit_joined [OF this] show ?thesis
        unfolding eq by blast
    next
      case None
      show ?thesis
      proof (cases "robust_createIfNotExists d")
        case False
        with name key None assms show ?thesis
          by (simp add: robust_join_professor_not_found)
      next
        case True
        with name key None have eq: "robust_join_room_as_professor s c now gen d
            = robust_professor_admit (createRoom s now ?k (?pn, c)) c now ?pn ?k"
          by (simp add: robust_join_professor_create)
        have cr: "\<And>k'. k' \<noteq> ?k \<Longrightarrow> r_rooms (createRoom s now ?k (?pn, c)) k' = r_rooms s k'"
          by (simp add: createRoom_rooms)
        from assms have "(ToSocket c, R_RoomJoined kb r nm n p st)
             \<in> set (snd (robust_professor_admit (createRoom s now ?k (?pn, c)) c now ?pn ?k))"
          unfolding eq .
        from robust_professor_admit_joined [OF this] cr show ?thesis
          unfolding eq by metis
      qed
    qed
  qed
qed

lemma robust_join_student_joined:
  assumes "(ToSocket c, R_RoomJoined kb r nm n p st)
             \<in> set (snd (robust_join_room_as_student s c now d))"
  shows "(\<exists>ub. r_userSessions (fst (robust_join_room_as_student s c now d)) c = Some ub
            \<and> rs_roomKey ub = kb \<and> rs_role ub = r)
         \<and> (\<forall>k. k \<noteq> kb \<longrightarrow>
               r_rooms (fst (robust_join_room_as_student s c now d)) k = r_rooms s k)"
  using assms unfolding robust_join_room_as_student_def Let_def
  by (auto split: option.splits if_splits)

lemma robust_other_events_not_joined:
  "(ToSocket c, R_RoomJoined kb r nm n p st) \<notin> set (snd (robust_draw_command s c now d))"
  "(ToSocket c, R_RoomJoined kb r nm n p st) \<notin> set (snd (robust_clear_canvas s c now))"
  "(ToSocket c, R_RoomJoined kb r nm n p st) \<notin> set (snd (robust_disconnect s c now))"
  by (auto simp: robust_draw_command_def robust_clear_canvas_def robust_disconnect_def
      Let_def split: option.splits if_splits)






lemma same_upper_empty:
  assumes "toUpperCase ka = toUpperCase kb"
  shows "(ka = []) = (kb = [])"
  using same_upper_truthy [OF assms] by (simp add: js_truthy_def)






text \<open>
  The last identity a room records disconnects and a professor joins under the same key
  before any deletion timer runs. In the robust variant the room is still registered and
  its history is the one the professor receives; timers that run while the professor is
  in the room leave it alone. In the simple variant the room is deleted by the disconnect
  itself.
\<close>

lemma rejoin_with_no_timer_between:
  "(r_userSessions s c = Some us \<and> r_rooms s (rs_roomKey us) = Some room
      \<and> map fst (r_professors room) @ map fst (r_students room) = [c]
      \<and> js_truthy (pj_professorName d) \<and> trim (the (pj_professorName d)) \<noteq> []
      \<and> js_truthy (pj_roomKey d) \<and> ascii_key (pj_roomKey d)
      \<and> validateRoomKey (pj_roomKey d)
      \<and> toUpperCase (the (pj_roomKey d)) = rs_roomKey us \<longrightarrow>
      r_userSessions (fst (robust_disconnect s c now)) c = None
      \<and> (\<exists>emptied. r_rooms (fst (robust_disconnect s c now)) (rs_roomKey us) = Some emptied
            \<and> r_commands emptied = r_commands room)
      \<and> (\<exists>rejoined.
            r_rooms (fst (robust_join_room_as_professor (fst (robust_disconnect s c now))
                            c' now' gen d)) (rs_roomKey us) = Some rejoined
            \<and> r_commands rejoined = r_commands room
            \<and> c' \<in> fst ` set (r_professors rejoined)
            \<and> (r_commands room \<noteq> [] \<longrightarrow>
                  (ToSocket c', R_RoomHistory (r_commands room) (length (r_commands room)))
                  \<in> set (snd (robust_join_room_as_professor (fst (robust_disconnect s c now))
                                 c' now' gen d)))
            \<and> (\<forall>n. r_rooms ((robust_timer_fires ^^ n)
                         (fst (robust_join_room_as_professor (fst (robust_disconnect s c now))
                                 c' now' gen d))) (rs_roomKey us) = Some rejoined)))
   \<and> (s_userSessions z c = Some zs \<and> s_rooms z (ss_roomKey zs) = Some zroom
      \<and> (ss_role zs = Professor \<and> s_students zroom = []
          \<or> ss_role zs = Student \<and> s_professor zroom = None \<and> s_students zroom = [c]) \<longrightarrow>
      s_userSessions (fst (simple_disconnect z c)) c = None
      \<and> s_rooms (fst (simple_disconnect z c)) (ss_roomKey zs) = None)"
proof ((rule conjI; rule impI), goal_cases)
  case 1
  note h = this
  define k where "k = rs_roomKey us"
  define lft where "lft = robust_leave room (rs_role us) c now"
  define s1 where "s1 = fst (robust_disconnect s c now)"
  define n where "n = the (pj_professorName d)"
  define pd where
    "pd = \<lparr>rp_name = trim n, rp_socketId = c', rp_joinedAt = now', rp_role = Professor\<rparr>"
  define again where
    "again = lft\<lparr>r_professors := map_set (r_professors lft) c' pd,
                  r_metadata := (r_metadata lft)\<lparr>rm_lastActivity := now'\<rparr>\<rparr>"
  from h have us: "r_userSessions s c = Some us" and room: "r_rooms s k = Some room"
    by (simp_all add: k_def)
  have s1: "s1 = s\<lparr>r_subscribed := socket_leave_all (r_subscribed s) c,
       r_rooms := (r_rooms s)(k \<mapsto> lft),
       r_timers := (if length (r_professors lft) + length (r_students lft) = 0
                    then r_timers s @ [k] else r_timers s),
       r_userSessions := (r_userSessions s)(c := None)\<rparr>"
    unfolding s1_def lft_def k_def
    using robust_disconnect_state [OF us, of room now] room by (simp add: k_def)
  have lft_cmds: "r_commands lft = r_commands room"
    by (simp add: lft_def robust_leave_def)
  from h have "length (r_professors room) \<le> 1"
    by (cases "r_professors room") (auto simp: Cons_eq_append_conv)
  then have few: "length (r_professors lft) < 3"
    using length_map_delete_le [of "r_professors room" c]
    by (simp add: lft_def robust_leave_def)
  have s1_room: "r_rooms s1 k = Some lft" by (simp add: s1)
  have s1_sess: "r_userSessions s1 c = None" by (simp add: s1)
  from h have key: "robust_roomKey d gen = pj_roomKey d"
    by (simp add: robust_roomKey_def)
  have join: "robust_join_room_as_professor s1 c' now' gen d
      = robust_professor_admit s1 c' now' n k"
    using h s1_room robust_join_professor_existing [of d gen s1 lft c' now']
    by (simp add: key k_def n_def)
  have s2: "fst (robust_join_room_as_professor s1 c' now' gen d) =
      s1\<lparr>r_rooms := (r_rooms s1)(k \<mapsto> again),
         r_subscribed := socket_join (r_subscribed s1) c' k,
         r_userSessions := (r_userSessions s1)(c' \<mapsto>
            \<lparr>rs_role = Professor, rs_name = trim n, rs_roomKey = k, rs_userId = c'\<rparr>)\<rparr>"
    unfolding join again_def pd_def
    by (rule robust_professor_admit_state [OF s1_room few])
  have out: "r_commands room \<noteq> [] \<longrightarrow>
      (ToSocket c', R_RoomHistory (r_commands room) (length (r_commands room)))
        \<in> set (snd (robust_join_room_as_professor s1 c' now' gen d))"
    unfolding join by (simp add: robust_professor_admit_ok [OF s1_room few] lft_cmds)
  have again_room: "r_rooms (fst (robust_join_room_as_professor s1 c' now' gen d)) k = Some again"
    by (simp add: s2)
  have again_cmds: "r_commands again = r_commands room"
    by (simp add: again_def lft_cmds)
  have again_prof: "c' \<in> fst ` set (r_professors again)"
    by (simp add: again_def)
  then have "r_professors again \<noteq> []" by auto
  then have timers: "\<forall>m. r_rooms ((robust_timer_fires ^^ m)
        (fst (robust_join_room_as_professor s1 c' now' gen d))) k = Some again"
    using robust_timers_keep_occupied [OF again_room] by simp
  have a: "\<exists>emptied. r_rooms s1 k = Some emptied \<and> r_commands emptied = r_commands room"
    using s1_room lft_cmds by blast
  have b: "\<exists>rejoined.
            r_rooms (fst (robust_join_room_as_professor s1 c' now' gen d)) k = Some rejoined
            \<and> r_commands rejoined = r_commands room
            \<and> c' \<in> fst ` set (r_professors rejoined)
            \<and> (r_commands room \<noteq> [] \<longrightarrow>
                  (ToSocket c', R_RoomHistory (r_commands room) (length (r_commands room)))
                  \<in> set (snd (robust_join_room_as_professor s1 c' now' gen d)))
            \<and> (\<forall>n. r_rooms ((robust_timer_fires ^^ n)
                         (fst (robust_join_room_as_professor s1 c' now' gen d))) k
                     = Some rejoined)"
    using again_room again_cmds again_prof out timers by (intro exI [of _ again]) simp
  from s1_sess a b show ?case
    unfolding s1_def k_def by - (intro conjI, assumption+)
next
  case 2
  then show ?case
    by (auto simp: simple_disconnect_professor simple_disconnect_student js_truthy_def)
qed
section \<open>The claims\<close>

subsection \<open>C1: a student cannot draw\<close>

text \<open>
  C1. For every connection whose Session has role \<open>student\<close>, a draw-command event is
  refused: in both variants the handler returns the state it was given (so no room's
  history changes length and no DrawCommand is appended) and emits exactly one message,
  \<open>permission-denied\<close>, addressed to the sending socket alone; nothing goes to the room.
\<close>

theorem student_draw_denied:
  "(s_userSessions s c = Some us \<and> ss_role us = Student \<longrightarrow>
      simple_draw_command s c now d
        = (s, [(ToSocket c, S_PermissionDenied ''INSUFFICIENT_PERMISSIONS'')]))
   \<and> (r_userSessions t c = Some vs \<and> rs_role vs = Student \<longrightarrow>
      robust_draw_command t c now e
        = (t, [(ToSocket c, R_PermissionDenied ''Only professors can draw'')]))
   \<and> recipients sub (ToSocket c) = {c}"
  by (simp add: simple_draw_command_def robust_draw_command_def recipients_def)

theorem student_draw_denied_witness:
  "s_userSessions s_class ''S1'' =
     Some \<lparr>ss_role = Student, ss_name = ''Bob'', ss_roomKey = ''MATH101'',
           ss_userId = ''S1'', ss_joinedAt = 0\<rparr>
   \<and> simple_draw_command s_class ''S1'' 0 a_stroke
       = (s_class, [(ToSocket ''S1'', S_PermissionDenied ''INSUFFICIENT_PERMISSIONS'')])
   \<and> r_userSessions r_class ''S1'' =
     Some \<lparr>rs_role = Student, rs_name = ''Bob'', rs_roomKey = ''MATH101'', rs_userId = ''S1''\<rparr>
   \<and> robust_draw_command r_class ''S1'' 0 (Some a_command)
       = (r_class, [(ToSocket ''S1'', R_PermissionDenied ''Only professors can draw'')])"
proof -
  have a: "s_userSessions s_class ''S1'' =
     Some \<lparr>ss_role = Student, ss_name = ''Bob'', ss_roomKey = ''MATH101'',
           ss_userId = ''S1'', ss_joinedAt = 0\<rparr>"
    by (simp add: s_class_eq)
  have b: "r_userSessions r_class ''S1'' =
     Some \<lparr>rs_role = Student, rs_name = ''Bob'', rs_roomKey = ''MATH101'', rs_userId = ''S1''\<rparr>"
    by (simp add: r_class_eq)
  from a b student_draw_denied [where s = s_class and t = r_class and c = "''S1''"
      and now = 0 and d = a_stroke and e = "Some a_command"
      and us = "\<lparr>ss_role = Student, ss_name = ''Bob'', ss_roomKey = ''MATH101'',
                  ss_userId = ''S1'', ss_joinedAt = 0\<rparr>"
      and vs = "\<lparr>rs_role = Student, rs_name = ''Bob'', rs_roomKey = ''MATH101'',
                  rs_userId = ''S1''\<rparr>"]
  show ?thesis by simp
qed

subsection \<open>C2: what happens at the 1001st stroke\<close>

text \<open>
  C2, as stated: in every room whose history holds 1000 draw commands, a 1001st append
  leaves a history of length exactly 500. The robust variant does not do that: its
  handler keeps the last 1000 commands. After Ann's 1000 strokes the room holds 1000
  commands, and after her next stroke it holds 1000 again, not 500.
\<close>

theorem robust_overflow_keeps_1000:
  "map_option (\<lambda>room. length (r_commands room)) (r_rooms (r_board 1000) ''MATH101'') = Some 1000
   \<and> map_option (\<lambda>room. length (r_commands room))
        (r_rooms (fst (robust_draw_command (r_board 1000) ''P1'' 0 (Some a_command))) ''MATH101'')
       = Some 1000
   \<and> map_option (\<lambda>room. length (r_commands room))
        (r_rooms (fst (robust_draw_command (r_board 1000) ''P1'' 0 (Some a_command))) ''MATH101'')
       \<noteq> Some 500"
  by (simp add: r_board_eq robust_draw_command_def robust_enrichedCommand_def a_command_def
      js_truthy_def Let_def slice_last_def)

text \<open>
  C2, amended. A valid professor stroke on a room whose history holds 1000 commands
  leaves, in the simple variant, a history of length exactly 500: the last 499 of the
  old commands in their order, followed by the new one; and in the robust variant a
  history of length exactly 1000: the old commands without the oldest, in their order,
  followed by the new one.
\<close>

theorem history_overflow:
  "(s_userSessions s c = Some us \<and> ss_role us = Professor
      \<and> s_rooms s (ss_roomKey us) = Some room \<and> length (s_history room) = 1000
      \<and> dd_path d = Some path \<and> path \<noteq> [] \<longrightarrow>
      (\<exists>room'. s_rooms (fst (simple_draw_command s c now d)) (ss_roomKey us) = Some room'
         \<and> s_history room' = drop 501 (s_history room) @ [simple_drawCommand c now us d path]
         \<and> length (s_history room') = 500))
   \<and> (r_userSessions t c = Some vs \<and> rs_role vs = Professor
      \<and> r_rooms t (rs_roomKey vs) = Some rroom \<and> length (r_commands rroom) = 1000
      \<and> js_truthy (ci_type cmd) \<and> ci_path cmd \<noteq> None \<longrightarrow>
      (\<exists>room'. r_rooms (fst (robust_draw_command t c now (Some cmd))) (rs_roomKey vs) = Some room'
         \<and> r_commands room' = drop 1 (r_commands rroom) @ [robust_enrichedCommand c now vs cmd]
         \<and> length (r_commands room') = 1000))"
  by (simp add: simple_draw_ok robust_draw_ok)

theorem history_overflow_witness:
  "s_userSessions (s_board 1000) ''P1'' =
       Some \<lparr>ss_role = Professor, ss_name = ''Ann'', ss_roomKey = ''MATH101'',
             ss_userId = ''P1'', ss_joinedAt = 0\<rparr>
   \<and> map_option (\<lambda>room. length (s_history room)) (s_rooms (s_board 1000) ''MATH101'') = Some 1000
   \<and> map_option s_history
        (s_rooms (fst (simple_draw_command (s_board 1000) ''P1'' 1 a_stroke)) ''MATH101'')
       = Some (replicate 499 s_stroke @ [s_stroke\<lparr>sc_timestamp := 1\<rparr>])
   \<and> r_userSessions (r_board 1000) ''P1'' =
       Some \<lparr>rs_role = Professor, rs_name = ''Ann'', rs_roomKey = ''MATH101'', rs_userId = ''P1''\<rparr>
   \<and> map_option (\<lambda>room. length (r_commands room)) (r_rooms (r_board 1000) ''MATH101'') = Some 1000
   \<and> map_option r_commands
        (r_rooms (fst (robust_draw_command (r_board 1000) ''P1'' 1 (Some a_command))) ''MATH101'')
       = Some (replicate 999 r_stroke @ [r_stroke\<lparr>rc_timestamp := 1\<rparr>])"
proof -
  let ?us = "\<lparr>ss_role = Professor, ss_name = ''Ann'', ss_roomKey = ''MATH101'',
             ss_userId = ''P1'', ss_joinedAt = 0\<rparr>"
  let ?vs = "\<lparr>rs_role = Professor, rs_name = ''Ann'', rs_roomKey = ''MATH101'', rs_userId = ''P1''\<rparr>"
  let ?room = "\<lparr>s_professor = Some ''P1'', s_students = [], s_history = replicate 1000 s_stroke,
           s_userCount = 1, s_createdAt = 0, s_createdBy = ''Ann''\<rparr>"
  let ?room2 = "\<lparr>r_professors = [(''P1'', \<lparr>rp_name = ''Ann'', rp_socketId = ''P1'', rp_joinedAt = 0,
                                     rp_role = Professor\<rparr>)],
           r_students = [], r_commands = replicate 1000 r_stroke,
           r_metadata = \<lparr>rm_createdAt = 0, rm_lastActivity = 0,
                         rm_createdBy = (''Ann'', ''P1''), rm_roomKey = ''MATH101''\<rparr>\<rparr>"
  have hs: "s_userSessions (s_board 1000) ''P1'' = Some ?us \<and> ss_role ?us = Professor
      \<and> s_rooms (s_board 1000) (ss_roomKey ?us) = Some ?room \<and> length (s_history ?room) = 1000
      \<and> dd_path a_stroke = Some [(0, 0), (3, 4)] \<and> [(0, 0), (3, 4)] \<noteq> ([] :: point list)"
    by (simp add: s_board_eq a_stroke_def)
  have hr: "r_userSessions (r_board 1000) ''P1'' = Some ?vs \<and> rs_role ?vs = Professor
      \<and> r_rooms (r_board 1000) (rs_roomKey ?vs) = Some ?room2
      \<and> length (r_commands ?room2) = 1000
      \<and> js_truthy (ci_type a_command) \<and> ci_path a_command \<noteq> None"
    by (simp add: r_board_eq a_command_def js_truthy_def)
  note inst = history_overflow [where s = "s_board 1000" and c = "''P1''" and us = ?us
      and room = ?room and d = a_stroke and path = "[(0, 0), (3, 4)]" and now = 1
      and t = "r_board 1000" and vs = ?vs and rroom = ?room2 and cmd = a_command]
  from inst hs obtain room' where
    s: "s_rooms (fst (simple_draw_command (s_board 1000) ''P1'' 1 a_stroke)) (ss_roomKey ?us)
          = Some room'"
       "s_history room' = drop 501 (s_history ?room)
          @ [simple_drawCommand ''P1'' 1 ?us a_stroke [(0, 0), (3, 4)]]"
    by blast
  from inst hr obtain room'' where
    r: "r_rooms (fst (robust_draw_command (r_board 1000) ''P1'' 1 (Some a_command)))
          (rs_roomKey ?vs) = Some room''"
       "r_commands room'' = drop 1 (r_commands ?room2)
          @ [robust_enrichedCommand ''P1'' 1 ?vs a_command]"
    by blast
  have c1: "simple_drawCommand ''P1'' 1 ?us a_stroke [(0, 0), (3, 4)] = s_stroke\<lparr>sc_timestamp := 1\<rparr>"
    by (simp add: simple_drawCommand_def a_stroke_def s_stroke_def js_truthy_def)
  have c2: "robust_enrichedCommand ''P1'' 1 ?vs a_command = r_stroke\<lparr>rc_timestamp := 1\<rparr>"
    by (simp add: robust_enrichedCommand_def a_command_def r_stroke_def substring8_def)
  from hs hr s r c1 c2 show ?thesis by simp
qed

subsection \<open>C3: the reported occupancy\<close>

text \<open>
  C3 says that every occupancy count the server reports equals the number of professors
  plus the number of students in the room. The student join of the simple variant
  reports \<open>1 + students.size\<close> whether or not a professor is present, while its own
  disconnect handler counts the professor slot only when it is filled. In the run below
  Ann has left, Bob is still in the room, and Cy joins: the server reports 3 in
  \<open>room-joined\<close> and in \<open>user-list-update\<close>, while the room records no professor
  and two students.
\<close>

theorem simple_student_join_overcounts:
  "simple_reach {''P1''} s_left
   \<and> snd (simple_join_room_as_student s_left ''S2'' 0 cy_joins) =
       [(ToSocket ''S2'', S_JoinAttemptReceived),
        (ToSocket ''S2'', S_RoomJoined ''MATH101'' 3 Student),
        (ToRoom ''MATH101'',
         S_UserListUpdate 3 (Some ''Unknown Professor'') [(''Bob'', ''S1''), (''Cy'', ''S2'')])]
   \<and> map_option (\<lambda>room. (s_professor room, s_students room))
        (s_rooms (fst (simple_join_room_as_student s_left ''S2'' 0 cy_joins)) ''MATH101'')
       = Some (None, [''S1'', ''S2''])"
  using s_left_reach
  by (intro conjI) (simp_all add: s_left_eq cy_joins_def simple_handler_defs char_eval)

theorem simple_student_join_overcounts_witness:
  "(ToSocket ''S2'', S_RoomJoined ''MATH101'' 3 Student)
     \<in> set (snd (simple_join_room_as_student s_left ''S2'' 0 cy_joins))
   \<and> (ToRoom ''MATH101'',
        S_UserListUpdate 3 (Some ''Unknown Professor'') [(''Bob'', ''S1''), (''Cy'', ''S2'')])
     \<in> set (snd (simple_join_room_as_student s_left ''S2'' 0 cy_joins))"
  using simple_student_join_overcounts by simp

subsection \<open>C4: the last occupant leaves and a professor comes back\<close>

text \<open>
  C4 says that after the only occupant of a room has disconnected, a professor who
  re-joins the same room key before the grace period elapses finds the prior draw history
  intact. The robust variant sets a 30 second deletion timer at every disconnect that
  empties a room and never cancels one: a timer that finds the room occupied does
  nothing, and a timer left over from an earlier disconnect deletes the room if it finds
  it empty, however recently it was emptied. (The simple variant has no grace period; it
  deletes the room in the disconnect handler.)

  In the run below Ann has drawn one stroke in \<open>MATH101\<close>. Her connection \<open>P1\<close>, the
  only occupant, closes at clock 1000 and sets a timer due at 31000. She re-joins on
  \<open>P2\<close> at 5000 and receives the stroke. \<open>P2\<close>, again the only occupant, closes at
  20000: its Session is removed, the room keeps its history, and a second timer, due at
  50000, is pending. At 31000 the first timer runs, finds the room empty and deletes it.
  Ann re-joins under the same key on \<open>P3\<close> at 32000, 12 seconds after the disconnect of
  \<open>P2\<close> and with that disconnect's timer still pending: the join creates a new room,
  sends no \<open>room-history\<close>, and the history is empty. (The pending timers are kept
  oldest first; all have the same delay, so that is the order in which they run. The
  room records the clock of the disconnect that emptied it as \<open>lastActivity\<close> and
  the clock of its creation as \<open>createdAt\<close>.)
\<close>

theorem robust_stale_timer_loses_history:
  "robust_reach {''P2'', ''P1''} r_stale
   \<and> map_option (\<lambda>room. (map fst (r_professors room) @ map fst (r_students room),
                           r_commands room)) (r_rooms (r_board 1) ''MATH101'')
       = Some ([''P1''], [r_stroke])
   \<and> r_userSessions r_away ''P1'' = None
   \<and> r_timers r_away = [''MATH101'']
   \<and> snd (robust_step r_away ''P2'' (R_JoinProfessor 5000 ''GEN123'' ann_opens))
       = [(ToSocket ''P2'', R_RoomJoined ''MATH101'' Professor ''Ann'' 1 1 0),
          (ToSocket ''P2'', R_RoomHistory [r_stroke] 1),
          (ToRoom ''MATH101'', R_UserListUpdate [(''Ann'', ''P2'')] [] 1)]
   \<and> map_option (\<lambda>room. (map fst (r_professors room) @ map fst (r_students room),
                           r_commands room)) (r_rooms r_back ''MATH101'')
       = Some ([''P2''], [r_stroke])
   \<and> r_userSessions r_away_again ''P2'' = None
   \<and> map_option (\<lambda>room. (map fst (r_professors room) @ map fst (r_students room),
                           r_commands room, rm_lastActivity (r_metadata room)))
        (r_rooms r_away_again ''MATH101'')
       = Some ([], [r_stroke], 20000)
   \<and> r_timers r_away_again = [''MATH101'', ''MATH101'']
   \<and> r_rooms r_stale ''MATH101'' = None
   \<and> r_timers r_stale = [''MATH101'']
   \<and> snd (robust_join_room_as_professor r_stale ''P3'' 32000 ''GEN123'' ann_opens)
       = [(ToSocket ''P3'', R_RoomJoined ''MATH101'' Professor ''Ann'' 1 1 0),
          (ToRoom ''MATH101'', R_UserListUpdate [(''Ann'', ''P3'')] [] 1)]
   \<and> map_option (\<lambda>room. (map fst (r_professors room), r_commands room,
                           rm_createdAt (r_metadata room)))
        (r_rooms (fst (robust_join_room_as_professor r_stale ''P3'' 32000 ''GEN123'' ann_opens))
           ''MATH101'')
       = Some ([''P3''], [], 32000)"
  using r_stale_reach
  by (intro conjI)
     (simp_all add: r_board_eq r_away_eq r_back_eq r_away_again_eq r_stale_eq ann_opens_def
        robust_handler_defs char_eval)

theorem robust_stale_timer_loses_history_witness:
  "map_option r_commands (r_rooms r_away_again ''MATH101'') = Some [r_stroke]
   \<and> r_timers r_stale = [''MATH101'']
   \<and> (ToSocket ''P3'', R_RoomHistory [r_stroke] 1)
       \<notin> set (snd (robust_join_room_as_professor r_stale ''P3'' 32000 ''GEN123'' ann_opens))
   \<and> map_option r_commands
        (r_rooms (fst (robust_join_room_as_professor r_stale ''P3'' 32000 ''GEN123'' ann_opens))
           ''MATH101'')
       = Some []"
proof -
  note run = robust_stale_timer_loses_history
  from run have a: "map_option r_commands (r_rooms r_away_again ''MATH101'') = Some [r_stroke]"
    by (cases "r_rooms r_away_again ''MATH101''") simp_all
  from run have b: "r_timers r_stale = [''MATH101'']" by simp
  from run have c: "(ToSocket ''P3'', R_RoomHistory [r_stroke] 1)
       \<notin> set (snd (robust_join_room_as_professor r_stale ''P3'' 32000 ''GEN123'' ann_opens))"
    by simp
  from run have d: "map_option r_commands
        (r_rooms (fst (robust_join_room_as_professor r_stale ''P3'' 32000 ''GEN123'' ann_opens))
           ''MATH101'')
       = Some []"
    by (cases "r_rooms (fst (robust_join_room_as_professor r_stale ''P3'' 32000 ''GEN123''
                              ann_opens)) ''MATH101''") simp_all
  from a b c d show ?thesis by simp
qed

subsection \<open>C5: a professor's stroke is stored once and relayed to the others\<close>

text \<open>
  C5, as stated: every valid draw-command from a connection whose Session has role
  \<open>professor\<close> appends exactly one entry to the room's history and is delivered to
  every other occupant. The draw-command payload of the interface is the stroke itself,
  \<open>{ path, color, width }\<close>, and the repository's client emits it in that form. The
  robust variant reads the stroke from a property \<open>command\<close> of the payload
  (\<open>const { command } = data\<close>) and returns without a message when there is none. So
  for a payload in the interface's format, which has no property \<open>command\<close> and is
  \<open>None\<close> for the robust handler, nothing is stored and nothing is relayed: Ann
  (\<open>P1\<close>) is the professor of \<open>MATH101\<close>, Bob (\<open>S1\<close>) is in the room, and
  Ann's stroke reaches neither the history nor Bob.
\<close>

theorem robust_flat_draw_dropped:
  "robust_reach {} r_class
   \<and> map_option rs_role (r_userSessions r_class ''P1'') = Some Professor
   \<and> map_option (\<lambda>room. (map fst (r_professors room), map fst (r_students room),
                           r_commands room)) (r_rooms r_class ''MATH101'')
       = Some ([''P1''], [''S1''], [])
   \<and> robust_draw_command r_class ''P1'' 0 None = (r_class, [])"
  using r_class_reach
  by (intro conjI) (simp_all add: r_class_eq robust_draw_command_def)

text \<open>
  C5, amended. In every state of a run of the simple variant, a draw-command with a
  non-empty \<open>path\<close> from a connection whose Session has role \<open>professor\<close> finds the
  session's room in the registry and appends exactly one entry to its history: the new
  history is the old one (all of it while it holds fewer than 1000 entries, its last 499
  entries otherwise) followed by the enriched command, which carries the type \<open>draw\<close>,
  the path of the payload, its colour and width (\<open>#2563eb\<close> and 2 when absent, empty
  or zero), the clock value, the sender's id and the professor's name. The only message
  emitted is that command, broadcast to the room except the sender: every other identity
  the room records that has not disconnected receives it, and the sender does not.

  In every state of a run of the robust variant the same holds for a payload
  \<open>{ command }\<close> whose \<open>command\<close> has a non-empty \<open>type\<close> and a \<open>path\<close>: the
  history keeps all its entries while it holds fewer than 1000 and its last 999
  otherwise, and the enriched command carries the type, path, colour and width of
  \<open>command\<close>, the first 8 characters of the sender's id, the professor's name, the clock
  value and the room key. A payload without \<open>command\<close>, such as one in the format
  \<open>{ path, color, width }\<close>, is dropped: the state is unchanged and no message is
  emitted.
\<close>

theorem professor_draw_appends_and_relays:
  "(simple_reach X s \<and> s_userSessions s c = Some us \<and> ss_role us = Professor
      \<and> dd_path d = Some path \<and> path \<noteq> [] \<longrightarrow>
      (\<exists>room stroke.
         s_rooms s (ss_roomKey us) = Some room
         \<and> stroke = \<lparr>sc_type = ''draw'', sc_path = path,
                      sc_color = (case dd_color d of None \<Rightarrow> ''#2563eb''
                                  | Some col \<Rightarrow> if col = [] then ''#2563eb'' else col),
                      sc_width = (case dd_width d of None \<Rightarrow> 2
                                  | Some w \<Rightarrow> if w = 0 then 2 else w),
                      sc_timestamp = now, sc_userId = c, sc_professorName = ss_name us\<rparr>
         \<and> simple_draw_command s c now d =
             (s\<lparr>s_rooms := (s_rooms s)(ss_roomKey us \<mapsto>
                  room\<lparr>s_history :=
                         (if length (s_history room) < 1000 then s_history room
                          else drop (length (s_history room) - 499) (s_history room))
                         @ [stroke]\<rparr>)\<rparr>,
              [(ToRoomExcept (ss_roomKey us) c, S_DrawCommand stroke)])
         \<and> (\<forall>x \<in> simple_occupants room. x \<noteq> c \<and> x \<notin> X \<longrightarrow>
               x \<in> recipients (s_subscribed s) (ToRoomExcept (ss_roomKey us) c))
         \<and> c \<notin> recipients (s_subscribed s) (ToRoomExcept (ss_roomKey us) c)))
   \<and> (robust_reach Y t \<and> r_userSessions t c = Some vs \<and> rs_role vs = Professor
      \<and> ci_type cmd = Some ty \<and> ty \<noteq> [] \<and> ci_path cmd = Some pth \<longrightarrow>
      (\<exists>room stroke.
         r_rooms t (rs_roomKey vs) = Some room
         \<and> stroke = \<lparr>rc_type = ty, rc_path = pth, rc_color = ci_color cmd,
                      rc_width = ci_width cmd, rc_professorId = take 8 c,
                      rc_professorName = rs_name vs, rc_timestamp = now,
                      rc_roomKey = rs_roomKey vs\<rparr>
         \<and> robust_draw_command t c now (Some cmd) =
             (t\<lparr>r_rooms := (r_rooms t)(rs_roomKey vs \<mapsto>
                  room\<lparr>r_commands :=
                         (if length (r_commands room) < 1000 then r_commands room
                          else drop (length (r_commands room) - 999) (r_commands room))
                         @ [stroke],
                       r_metadata := (r_metadata room)\<lparr>rm_lastActivity := now\<rparr>\<rparr>)\<rparr>,
              [(ToRoomExcept (rs_roomKey vs) c, R_DrawCommand stroke)])
         \<and> (\<forall>x \<in> robust_occupants room. x \<noteq> c \<and> x \<notin> Y \<longrightarrow>
               x \<in> recipients (r_subscribed t) (ToRoomExcept (rs_roomKey vs) c))
         \<and> c \<notin> recipients (r_subscribed t) (ToRoomExcept (rs_roomKey vs) c)))
   \<and> (robust_reach Y t \<and> r_userSessions t c = Some vs \<and> rs_role vs = Professor \<longrightarrow>
      robust_draw_command t c now None = (t, []))"
proof (intro conjI impI)
  assume h: "simple_reach X s \<and> s_userSessions s c = Some us \<and> ss_role us = Professor
      \<and> dd_path d = Some path \<and> path \<noteq> []"
  then have inv: "simple_inv X s" by (simp add: simple_reach_inv)
  from simple_inv_professor [OF inv, of c us] h obtain room where
    room: "s_rooms s (ss_roomKey us) = Some room" by auto
  define stroke where "stroke = \<lparr>sc_type = ''draw'', sc_path = path,
                      sc_color = (case dd_color d of None \<Rightarrow> ''#2563eb''
                                  | Some col \<Rightarrow> if col = [] then ''#2563eb'' else col),
                      sc_width = (case dd_width d of None \<Rightarrow> 2
                                  | Some w \<Rightarrow> if w = 0 then 2 else w),
                      sc_timestamp = now, sc_userId = c, sc_professorName = ss_name us\<rparr>"
  have stroke: "simple_drawCommand c now us d path = stroke"
    by (simp add: simple_drawCommand_def stroke_def js_truthy_def split: option.splits)
  have hist: "drop (if length (s_history room) < 1000 then 0 else length (s_history room) - 499)
        (s_history room)
      = (if length (s_history room) < 1000 then s_history room
         else drop (length (s_history room) - 499) (s_history room))"
    by simp
  have run: "simple_draw_command s c now d =
             (s\<lparr>s_rooms := (s_rooms s)(ss_roomKey us \<mapsto>
                  room\<lparr>s_history :=
                         (if length (s_history room) < 1000 then s_history room
                          else drop (length (s_history room) - 499) (s_history room))
                         @ [stroke]\<rparr>)\<rparr>,
              [(ToRoomExcept (ss_roomKey us) c, S_DrawCommand stroke)])"
    using h room simple_draw_ok [of s c us room d path now]
    unfolding stroke hist by simp
  have others: "\<forall>x \<in> simple_occupants room. x \<noteq> c \<and> x \<notin> X \<longrightarrow>
               x \<in> recipients (s_subscribed s) (ToRoomExcept (ss_roomKey us) c)"
    using simple_occupants_subscribed [OF inv room] by (simp add: recipients_def)
  have sender: "c \<notin> recipients (s_subscribed s) (ToRoomExcept (ss_roomKey us) c)"
    by (simp add: recipients_def)
  from room stroke_def run others sender
  show "\<exists>room stroke.
         s_rooms s (ss_roomKey us) = Some room
         \<and> stroke = \<lparr>sc_type = ''draw'', sc_path = path,
                      sc_color = (case dd_color d of None \<Rightarrow> ''#2563eb''
                                  | Some col \<Rightarrow> if col = [] then ''#2563eb'' else col),
                      sc_width = (case dd_width d of None \<Rightarrow> 2
                                  | Some w \<Rightarrow> if w = 0 then 2 else w),
                      sc_timestamp = now, sc_userId = c, sc_professorName = ss_name us\<rparr>
         \<and> simple_draw_command s c now d =
             (s\<lparr>s_rooms := (s_rooms s)(ss_roomKey us \<mapsto>
                  room\<lparr>s_history :=
                         (if length (s_history room) < 1000 then s_history room
                          else drop (length (s_history room) - 499) (s_history room))
                         @ [stroke]\<rparr>)\<rparr>,
              [(ToRoomExcept (ss_roomKey us) c, S_DrawCommand stroke)])
         \<and> (\<forall>x \<in> simple_occupants room. x \<noteq> c \<and> x \<notin> X \<longrightarrow>
               x \<in> recipients (s_subscribed s) (ToRoomExcept (ss_roomKey us) c))
         \<and> c \<notin> recipients (s_subscribed s) (ToRoomExcept (ss_roomKey us) c)"
    by - (rule exI [of _ room], rule exI [of _ stroke], intro conjI, assumption+)
next
  assume h: "robust_reach Y t \<and> r_userSessions t c = Some vs \<and> rs_role vs = Professor
      \<and> ci_type cmd = Some ty \<and> ty \<noteq> [] \<and> ci_path cmd = Some pth"
  then have inv: "robust_inv Y t" by (simp add: robust_reach_inv)
  from robust_inv_professor [OF inv, of c vs] h obtain room where
    room: "r_rooms t (rs_roomKey vs) = Some room" by auto
  define stroke where "stroke = \<lparr>rc_type = ty, rc_path = pth, rc_color = ci_color cmd,
                      rc_width = ci_width cmd, rc_professorId = take 8 c,
                      rc_professorName = rs_name vs, rc_timestamp = now,
                      rc_roomKey = rs_roomKey vs\<rparr>"
  have stroke: "robust_enrichedCommand c now vs cmd = stroke"
    using h by (simp add: robust_enrichedCommand_def stroke_def substring8_def)
  have valid: "js_truthy (ci_type cmd)" "ci_path cmd \<noteq> None"
    using h by (simp_all add: js_truthy_def)
  have hist: "drop (if length (r_commands room) < 1000 then 0 else length (r_commands room) - 999)
        (r_commands room)
      = (if length (r_commands room) < 1000 then r_commands room
         else drop (length (r_commands room) - 999) (r_commands room))"
    by simp
  have run: "robust_draw_command t c now (Some cmd) =
             (t\<lparr>r_rooms := (r_rooms t)(rs_roomKey vs \<mapsto>
                  room\<lparr>r_commands :=
                         (if length (r_commands room) < 1000 then r_commands room
                          else drop (length (r_commands room) - 999) (r_commands room))
                         @ [stroke],
                       r_metadata := (r_metadata room)\<lparr>rm_lastActivity := now\<rparr>\<rparr>)\<rparr>,
              [(ToRoomExcept (rs_roomKey vs) c, R_DrawCommand stroke)])"
    using h room valid robust_draw_ok [of t c vs room cmd now]
    unfolding stroke hist by simp
  have others: "\<forall>x \<in> robust_occupants room. x \<noteq> c \<and> x \<notin> Y \<longrightarrow>
               x \<in> recipients (r_subscribed t) (ToRoomExcept (rs_roomKey vs) c)"
    using robust_occupants_subscribed [OF inv room] by (simp add: recipients_def)
  have sender: "c \<notin> recipients (r_subscribed t) (ToRoomExcept (rs_roomKey vs) c)"
    by (simp add: recipients_def)
  from room stroke_def run others sender
  show "\<exists>room stroke.
         r_rooms t (rs_roomKey vs) = Some room
         \<and> stroke = \<lparr>rc_type = ty, rc_path = pth, rc_color = ci_color cmd,
                      rc_width = ci_width cmd, rc_professorId = take 8 c,
                      rc_professorName = rs_name vs, rc_timestamp = now,
                      rc_roomKey = rs_roomKey vs\<rparr>
         \<and> robust_draw_command t c now (Some cmd) =
             (t\<lparr>r_rooms := (r_rooms t)(rs_roomKey vs \<mapsto>
                  room\<lparr>r_commands :=
                         (if length (r_commands room) < 1000 then r_commands room
                          else drop (length (r_commands room) - 999) (r_commands room))
                         @ [stroke],
                       r_metadata := (r_metadata room)\<lparr>rm_lastActivity := now\<rparr>\<rparr>)\<rparr>,
              [(ToRoomExcept (rs_roomKey vs) c, R_DrawCommand stroke)])
         \<and> (\<forall>x \<in> robust_occupants room. x \<noteq> c \<and> x \<notin> Y \<longrightarrow>
               x \<in> recipients (r_subscribed t) (ToRoomExcept (rs_roomKey vs) c))
         \<and> c \<notin> recipients (r_subscribed t) (ToRoomExcept (rs_roomKey vs) c)"
    by - (rule exI [of _ room], rule exI [of _ stroke], intro conjI, assumption+)
next
  assume "robust_reach Y t \<and> r_userSessions t c = Some vs \<and> rs_role vs = Professor"
  then show "robust_draw_command t c now None = (t, [])"
    by (simp add: robust_draw_command_def)
qed

theorem professor_draw_appends_and_relays_witness:
  "simple_reach {} s_class
   \<and> s_userSessions s_class ''P1'' =
       Some \<lparr>ss_role = Professor, ss_name = ''Ann'', ss_roomKey = ''MATH101'',
             ss_userId = ''P1'', ss_joinedAt = 0\<rparr>
   \<and> a_stroke = \<lparr>dd_path = Some [(0, 0), (3, 4)], dd_color = None, dd_width = None\<rparr>
   \<and> simple_draw_command s_class ''P1'' 7 a_stroke =
         (s_class\<lparr>s_rooms := (s_rooms s_class)(''MATH101'' \<mapsto>
             \<lparr>s_professor = Some ''P1'', s_students = [''S1''],
              s_history = [\<lparr>sc_type = ''draw'', sc_path = [(0, 0), (3, 4)],
                             sc_color = ''#2563eb'', sc_width = 2, sc_timestamp = 7,
                             sc_userId = ''P1'', sc_professorName = ''Ann''\<rparr>],
              s_userCount = 2, s_createdAt = 0, s_createdBy = ''Ann''\<rparr>)\<rparr>,
          [(ToRoomExcept ''MATH101'' ''P1'',
            S_DrawCommand \<lparr>sc_type = ''draw'', sc_path = [(0, 0), (3, 4)],
                             sc_color = ''#2563eb'', sc_width = 2, sc_timestamp = 7,
                             sc_userId = ''P1'', sc_professorName = ''Ann''\<rparr>)])
   \<and> ''S1'' \<in> recipients (s_subscribed s_class) (ToRoomExcept ''MATH101'' ''P1'')
   \<and> ''P1'' \<notin> recipients (s_subscribed s_class) (ToRoomExcept ''MATH101'' ''P1'')
   \<and> robust_reach {} r_class
   \<and> r_userSessions r_class ''P1'' =
       Some \<lparr>rs_role = Professor, rs_name = ''Ann'', rs_roomKey = ''MATH101'', rs_userId = ''P1''\<rparr>
   \<and> a_command = \<lparr>ci_type = Some ''draw'', ci_path = Some [(0, 0), (3, 4)],
                    ci_color = None, ci_width = None\<rparr>
   \<and> map_option r_commands
        (r_rooms (fst (robust_draw_command r_class ''P1'' 7 (Some a_command))) ''MATH101'')
       = Some [\<lparr>rc_type = ''draw'', rc_path = [(0, 0), (3, 4)], rc_color = None,
                 rc_width = None, rc_professorId = ''P1'', rc_professorName = ''Ann'',
                 rc_timestamp = 7, rc_roomKey = ''MATH101''\<rparr>]
   \<and> snd (robust_draw_command r_class ''P1'' 7 (Some a_command))
       = [(ToRoomExcept ''MATH101'' ''P1'',
           R_DrawCommand \<lparr>rc_type = ''draw'', rc_path = [(0, 0), (3, 4)], rc_color = None,
                 rc_width = None, rc_professorId = ''P1'', rc_professorName = ''Ann'',
                 rc_timestamp = 7, rc_roomKey = ''MATH101''\<rparr>)]
   \<and> ''S1'' \<in> recipients (r_subscribed r_class) (ToRoomExcept ''MATH101'' ''P1'')
   \<and> ''P1'' \<notin> recipients (r_subscribed r_class) (ToRoomExcept ''MATH101'' ''P1'')
   \<and> robust_draw_command r_class ''P1'' 7 None = (r_class, [])"
proof -
  let ?us = "\<lparr>ss_role = Professor, ss_name = ''Ann'', ss_roomKey = ''MATH101'',
             ss_userId = ''P1'', ss_joinedAt = 0\<rparr>"
  let ?vs = "\<lparr>rs_role = Professor, rs_name = ''Ann'', rs_roomKey = ''MATH101'', rs_userId = ''P1''\<rparr>"
  have hs: "simple_reach {} s_class \<and> s_userSessions s_class ''P1'' = Some ?us
      \<and> ss_role ?us = Professor \<and> dd_path a_stroke = Some [(0, 0), (3, 4)]
      \<and> [(0, 0), (3, 4)] \<noteq> ([] :: point list)"
    using s_class_reach by (intro conjI) (simp_all add: s_class_eq a_stroke_def)
  have hr: "robust_reach {} r_class \<and> r_userSessions r_class ''P1'' = Some ?vs
      \<and> rs_role ?vs = Professor \<and> ci_type a_command = Some ''draw'' \<and> ''draw'' \<noteq> []
      \<and> ci_path a_command = Some [(0, 0), (3, 4)]"
    using r_class_reach by (intro conjI) (simp_all add: r_class_eq a_command_def)
  have hf: "robust_reach {} r_class \<and> r_userSessions r_class ''P1'' = Some ?vs
      \<and> rs_role ?vs = Professor"
    using hr by simp
  note inst = professor_draw_appends_and_relays [where X = "{}" and s = s_class and c = "''P1''"
      and us = ?us and d = a_stroke and path = "[(0, 0), (3, 4)]" and now = 7
      and Y = "{}" and t = r_class and vs = ?vs and cmd = a_command and ty = "''draw''"
      and pth = "[(0, 0), (3, 4)]"]
  from inst hs obtain room stroke where
    s: "s_rooms s_class (ss_roomKey ?us) = Some room"
       "stroke = \<lparr>sc_type = ''draw'', sc_path = [(0, 0), (3, 4)],
                      sc_color = (case dd_color a_stroke of None \<Rightarrow> ''#2563eb''
                                  | Some col \<Rightarrow> if col = [] then ''#2563eb'' else col),
                      sc_width = (case dd_width a_stroke of None \<Rightarrow> 2
                                  | Some w \<Rightarrow> if w = 0 then 2 else w),
                      sc_timestamp = 7, sc_userId = ''P1'', sc_professorName = ss_name ?us\<rparr>"
       "simple_draw_command s_class ''P1'' 7 a_stroke =
             (s_class\<lparr>s_rooms := (s_rooms s_class)(ss_roomKey ?us \<mapsto>
                  room\<lparr>s_history :=
                         (if length (s_history room) < 1000 then s_history room
                          else drop (length (s_history room) - 499) (s_history room))
                         @ [stroke]\<rparr>)\<rparr>,
              [(ToRoomExcept (ss_roomKey ?us) ''P1'', S_DrawCommand stroke)])"
       "\<forall>x \<in> simple_occupants room. x \<noteq> ''P1'' \<and> x \<notin> {} \<longrightarrow>
               x \<in> recipients (s_subscribed s_class) (ToRoomExcept (ss_roomKey ?us) ''P1'')"
       "''P1'' \<notin> recipients (s_subscribed s_class) (ToRoomExcept (ss_roomKey ?us) ''P1'')"
    by blast
  from s(1) have room: "room = \<lparr>s_professor = Some ''P1'', s_students = [''S1''], s_history = [],
              s_userCount = 2, s_createdAt = 0, s_createdBy = ''Ann''\<rparr>"
    by (simp add: s_class_eq)
  from s(2) have st: "stroke = \<lparr>sc_type = ''draw'', sc_path = [(0, 0), (3, 4)],
                             sc_color = ''#2563eb'', sc_width = 2, sc_timestamp = 7,
                             sc_userId = ''P1'', sc_professorName = ''Ann''\<rparr>"
    by (simp add: a_stroke_def)
  from inst hr obtain rroom rstroke where
    r: "r_rooms r_class (rs_roomKey ?vs) = Some rroom"
       "rstroke = \<lparr>rc_type = ''draw'', rc_path = [(0, 0), (3, 4)], rc_color = ci_color a_command,
                      rc_width = ci_width a_command, rc_professorId = take 8 ''P1'',
                      rc_professorName = rs_name ?vs, rc_timestamp = 7,
                      rc_roomKey = rs_roomKey ?vs\<rparr>"
       "robust_draw_command r_class ''P1'' 7 (Some a_command) =
             (r_class\<lparr>r_rooms := (r_rooms r_class)(rs_roomKey ?vs \<mapsto>
                  rroom\<lparr>r_commands :=
                         (if length (r_commands rroom) < 1000 then r_commands rroom
                          else drop (length (r_commands rroom) - 999) (r_commands rroom))
                         @ [rstroke],
                       r_metadata := (r_metadata rroom)\<lparr>rm_lastActivity := 7\<rparr>\<rparr>)\<rparr>,
              [(ToRoomExcept (rs_roomKey ?vs) ''P1'', R_DrawCommand rstroke)])"
       "\<forall>x \<in> robust_occupants rroom. x \<noteq> ''P1'' \<and> x \<notin> {} \<longrightarrow>
               x \<in> recipients (r_subscribed r_class) (ToRoomExcept (rs_roomKey ?vs) ''P1'')"
       "''P1'' \<notin> recipients (r_subscribed r_class) (ToRoomExcept (rs_roomKey ?vs) ''P1'')"
    by blast
  from r(1) have rc: "r_commands rroom = []" and ro: "''S1'' \<in> robust_occupants rroom"
    by (auto simp: r_class_eq robust_occupants_def)
  from r(2) have rst: "rstroke = \<lparr>rc_type = ''draw'', rc_path = [(0, 0), (3, 4)], rc_color = None,
                 rc_width = None, rc_professorId = ''P1'', rc_professorName = ''Ann'',
                 rc_timestamp = 7, rc_roomKey = ''MATH101''\<rparr>"
    by (simp add: a_command_def)
  from inst hf have flat: "robust_draw_command r_class ''P1'' 7 None = (r_class, [])"
    by blast
  from s(4) room have s1: "''S1'' \<in> recipients (s_subscribed s_class) (ToRoomExcept ''MATH101'' ''P1'')"
    by (simp add: simple_occupants_def)
  from r(4) ro have r1: "''S1'' \<in> recipients (r_subscribed r_class) (ToRoomExcept ''MATH101'' ''P1'')"
    by auto
  have defs: "a_stroke = \<lparr>dd_path = Some [(0, 0), (3, 4)], dd_color = None, dd_width = None\<rparr>"
    "a_command = \<lparr>ci_type = Some ''draw'', ci_path = Some [(0, 0), (3, 4)],
                    ci_color = None, ci_width = None\<rparr>"
    by (simp_all add: a_stroke_def a_command_def)
  from hs hr s(3,5) r(3,5) room st rst rc s1 r1 flat defs(1) defs(2) show ?thesis
    by simp
qed

subsection \<open>C6: clearing the canvas empties the history and reaches everybody\<close>

text \<open>
  C6. In every state of a run, a clear-canvas event from a connection whose Session has
  role \<open>professor\<close> finds the session's room in the registry, replaces its history by the
  empty sequence and emits exactly one message, \<open>canvas-cleared\<close>, to the whole room:
  every identity the room records that has not disconnected receives it, and so does the
  sender itself.
\<close>

theorem professor_clear_empties_and_notifies_all:
  "(simple_reach X s \<and> s_userSessions s c = Some us \<and> ss_role us = Professor \<longrightarrow>
      (\<exists>room.
         s_rooms s (ss_roomKey us) = Some room
         \<and> simple_clear_canvas s c =
             (s\<lparr>s_rooms := (s_rooms s)(ss_roomKey us \<mapsto> room\<lparr>s_history := []\<rparr>)\<rparr>,
              [(ToRoom (ss_roomKey us), S_CanvasCleared (ss_name us))])
         \<and> (\<forall>x \<in> simple_occupants room. x \<notin> X \<longrightarrow>
               x \<in> recipients (s_subscribed s) (ToRoom (ss_roomKey us)))
         \<and> c \<in> recipients (s_subscribed s) (ToRoom (ss_roomKey us))))
   \<and> (robust_reach Y t \<and> r_userSessions t c = Some vs \<and> rs_role vs = Professor \<longrightarrow>
      (\<exists>room.
         r_rooms t (rs_roomKey vs) = Some room
         \<and> robust_clear_canvas t c now =
             (t\<lparr>r_rooms := (r_rooms t)(rs_roomKey vs \<mapsto>
                  room\<lparr>r_commands := [],
                       r_metadata := (r_metadata room)\<lparr>rm_lastActivity := now\<rparr>\<rparr>)\<rparr>,
              [(ToRoom (rs_roomKey vs), R_CanvasCleared (substring8 c) (rs_name vs))])
         \<and> (\<forall>x \<in> robust_occupants room. x \<notin> Y \<longrightarrow>
               x \<in> recipients (r_subscribed t) (ToRoom (rs_roomKey vs)))
         \<and> c \<in> recipients (r_subscribed t) (ToRoom (rs_roomKey vs))))"
proof (intro conjI impI)
  assume h: "simple_reach X s \<and> s_userSessions s c = Some us \<and> ss_role us = Professor"
  then have inv: "simple_inv X s" by (simp add: simple_reach_inv)
  from simple_inv_professor [OF inv, of c us] h obtain room where
    room: "s_rooms s (ss_roomKey us) = Some room" by auto
  from simple_inv_session [OF inv, of c us] h
  have sub: "c \<in> s_subscribed s (ss_roomKey us)" by simp
  have "s_rooms s (ss_roomKey us) = Some room
         \<and> simple_clear_canvas s c =
             (s\<lparr>s_rooms := (s_rooms s)(ss_roomKey us \<mapsto> room\<lparr>s_history := []\<rparr>)\<rparr>,
              [(ToRoom (ss_roomKey us), S_CanvasCleared (ss_name us))])
         \<and> (\<forall>x \<in> simple_occupants room. x \<notin> X \<longrightarrow>
               x \<in> recipients (s_subscribed s) (ToRoom (ss_roomKey us)))
         \<and> c \<in> recipients (s_subscribed s) (ToRoom (ss_roomKey us))"
    using h room sub simple_clear_ok [of s c us room]
      simple_occupants_subscribed [OF inv room]
    by (simp add: recipients_def)
  then show "\<exists>room.
         s_rooms s (ss_roomKey us) = Some room
         \<and> simple_clear_canvas s c =
             (s\<lparr>s_rooms := (s_rooms s)(ss_roomKey us \<mapsto> room\<lparr>s_history := []\<rparr>)\<rparr>,
              [(ToRoom (ss_roomKey us), S_CanvasCleared (ss_name us))])
         \<and> (\<forall>x \<in> simple_occupants room. x \<notin> X \<longrightarrow>
               x \<in> recipients (s_subscribed s) (ToRoom (ss_roomKey us)))
         \<and> c \<in> recipients (s_subscribed s) (ToRoom (ss_roomKey us))"
    by (intro exI)
next
  assume h: "robust_reach Y t \<and> r_userSessions t c = Some vs \<and> rs_role vs = Professor"
  then have inv: "robust_inv Y t" by (simp add: robust_reach_inv)
  from robust_inv_professor [OF inv, of c vs] h obtain room where
    room: "r_rooms t (rs_roomKey vs) = Some room" by auto
  from robust_inv_session [OF inv, of c vs] h
  have sub: "c \<in> r_subscribed t (rs_roomKey vs)" by simp
  have "r_rooms t (rs_roomKey vs) = Some room
         \<and> robust_clear_canvas t c now =
             (t\<lparr>r_rooms := (r_rooms t)(rs_roomKey vs \<mapsto>
                  room\<lparr>r_commands := [],
                       r_metadata := (r_metadata room)\<lparr>rm_lastActivity := now\<rparr>\<rparr>)\<rparr>,
              [(ToRoom (rs_roomKey vs), R_CanvasCleared (substring8 c) (rs_name vs))])
         \<and> (\<forall>x \<in> robust_occupants room. x \<notin> Y \<longrightarrow>
               x \<in> recipients (r_subscribed t) (ToRoom (rs_roomKey vs)))
         \<and> c \<in> recipients (r_subscribed t) (ToRoom (rs_roomKey vs))"
    using h room sub robust_clear_ok [of t c vs room now]
      robust_occupants_subscribed [OF inv room]
    by (simp add: recipients_def)
  then show "\<exists>room.
         r_rooms t (rs_roomKey vs) = Some room
         \<and> robust_clear_canvas t c now =
             (t\<lparr>r_rooms := (r_rooms t)(rs_roomKey vs \<mapsto>
                  room\<lparr>r_commands := [],
                       r_metadata := (r_metadata room)\<lparr>rm_lastActivity := now\<rparr>\<rparr>)\<rparr>,
              [(ToRoom (rs_roomKey vs), R_CanvasCleared (substring8 c) (rs_name vs))])
         \<and> (\<forall>x \<in> robust_occupants room. x \<notin> Y \<longrightarrow>
               x \<in> recipients (r_subscribed t) (ToRoom (rs_roomKey vs)))
         \<and> c \<in> recipients (r_subscribed t) (ToRoom (rs_roomKey vs))"
    by (intro exI)
qed

theorem professor_clear_empties_and_notifies_all_witness:
  "simple_reach {} s_class
   \<and> s_userSessions s_class ''P1'' =
       Some \<lparr>ss_role = Professor, ss_name = ''Ann'', ss_roomKey = ''MATH101'',
             ss_userId = ''P1'', ss_joinedAt = 0\<rparr>
   \<and> snd (simple_clear_canvas s_class ''P1'') = [(ToRoom ''MATH101'', S_CanvasCleared ''Ann'')]
   \<and> (\<exists>room. s_rooms (fst (simple_clear_canvas s_class ''P1'')) ''MATH101'' = Some room
        \<and> s_history room = [])
   \<and> ''S1'' \<in> recipients (s_subscribed s_class) (ToRoom ''MATH101'')
   \<and> ''P1'' \<in> recipients (s_subscribed s_class) (ToRoom ''MATH101'')
   \<and> robust_reach {} r_class
   \<and> r_userSessions r_class ''P1'' =
       Some \<lparr>rs_role = Professor, rs_name = ''Ann'', rs_roomKey = ''MATH101'', rs_userId = ''P1''\<rparr>
   \<and> snd (robust_clear_canvas r_class ''P1'' 0)
       = [(ToRoom ''MATH101'', R_CanvasCleared ''P1'' ''Ann'')]
   \<and> (\<exists>room. r_rooms (fst (robust_clear_canvas r_class ''P1'' 0)) ''MATH101'' = Some room
        \<and> r_commands room = [])
   \<and> ''S1'' \<in> recipients (r_subscribed r_class) (ToRoom ''MATH101'')
   \<and> ''P1'' \<in> recipients (r_subscribed r_class) (ToRoom ''MATH101'')"
proof -
  let ?us = "\<lparr>ss_role = Professor, ss_name = ''Ann'', ss_roomKey = ''MATH101'',
             ss_userId = ''P1'', ss_joinedAt = 0\<rparr>"
  let ?vs = "\<lparr>rs_role = Professor, rs_name = ''Ann'', rs_roomKey = ''MATH101'', rs_userId = ''P1''\<rparr>"
  have hs: "simple_reach {} s_class \<and> s_userSessions s_class ''P1'' = Some ?us
      \<and> ss_role ?us = Professor"
    using s_class_reach by (intro conjI) (simp_all add: s_class_eq)
  have hr: "robust_reach {} r_class \<and> r_userSessions r_class ''P1'' = Some ?vs
      \<and> rs_role ?vs = Professor"
    using r_class_reach by (intro conjI) (simp_all add: r_class_eq)
  note inst = professor_clear_empties_and_notifies_all [where X = "{}" and s = s_class
      and c = "''P1''" and us = ?us and now = 0 and Y = "{}" and t = r_class and vs = ?vs]
  from inst hs obtain room where
    s: "s_rooms s_class (ss_roomKey ?us) = Some room"
       "simple_clear_canvas s_class ''P1'' =
             (s_class\<lparr>s_rooms := (s_rooms s_class)(ss_roomKey ?us \<mapsto> room\<lparr>s_history := []\<rparr>)\<rparr>,
              [(ToRoom (ss_roomKey ?us), S_CanvasCleared (ss_name ?us))])"
       "\<forall>x \<in> simple_occupants room. x \<notin> {} \<longrightarrow>
               x \<in> recipients (s_subscribed s_class) (ToRoom (ss_roomKey ?us))"
       "''P1'' \<in> recipients (s_subscribed s_class) (ToRoom (ss_roomKey ?us))"
    by blast
  from s(1) have so: "''S1'' \<in> simple_occupants room"
    by (auto simp: s_class_eq simple_occupants_def)
  from inst hr obtain room' where
    r: "r_rooms r_class (rs_roomKey ?vs) = Some room'"
       "robust_clear_canvas r_class ''P1'' 0 =
             (r_class\<lparr>r_rooms := (r_rooms r_class)(rs_roomKey ?vs \<mapsto>
                  room'\<lparr>r_commands := [],
                       r_metadata := (r_metadata room')\<lparr>rm_lastActivity := 0\<rparr>\<rparr>)\<rparr>,
              [(ToRoom (rs_roomKey ?vs), R_CanvasCleared (substring8 ''P1'') (rs_name ?vs))])"
       "\<forall>x \<in> robust_occupants room'. x \<notin> {} \<longrightarrow>
               x \<in> recipients (r_subscribed r_class) (ToRoom (rs_roomKey ?vs))"
       "''P1'' \<in> recipients (r_subscribed r_class) (ToRoom (rs_roomKey ?vs))"
    by blast
  from r(1) have ro: "''S1'' \<in> robust_occupants room'"
    by (auto simp: r_class_eq robust_occupants_def)
  from s(3) so have s1: "''S1'' \<in> recipients (s_subscribed s_class) (ToRoom ''MATH101'')"
    by auto
  from r(3) ro have r1: "''S1'' \<in> recipients (r_subscribed r_class) (ToRoom ''MATH101'')"
    by auto
  from hs hr s(2,4) r(2,4) s1 r1 show ?thesis
    by (simp add: substring8_def)
qed

subsection \<open>C7: a student cannot join a room that does not exist\<close>




subsection \<open>C8: which room keys the joins reject\<close>




subsection \<open>C9: room keys are compared without regard to case\<close>



subsection \<open>C10: a second join from the same connection\<close>

text \<open>
  C10. When a connection that already holds a Session in a room \<open>A\<close> sends an event that
  is answered with \<open>room-joined\<close> for another room \<open>B\<close> (a successful join, in either
  role and in either variant), the Session Registry afterwards holds for that connection
  the new Session, with room \<open>B\<close> and the new role, and the registry entry of room \<open>A\<close>
  is exactly what it was: the connection's identity is still in the professor slot or in
  the sets of \<open>A\<close>, and nothing about \<open>A\<close> (in the simple variant its \<open>userCount\<close>) is
  recomputed.
\<close>

theorem rejoin_replaces_session_only:
  "(s_userSessions s c = Some ua
      \<and> (ToSocket c, S_RoomJoined kb n r) \<in> set (snd (simple_step s c e))
      \<and> ss_roomKey ua \<noteq> kb \<longrightarrow>
      (\<exists>ub. s_userSessions (fst (simple_step s c e)) c = Some ub
          \<and> ss_roomKey ub = kb \<and> ss_role ub = r)
      \<and> s_rooms (fst (simple_step s c e)) (ss_roomKey ua) = s_rooms s (ss_roomKey ua))
   \<and> (r_userSessions t c = Some va
      \<and> (ToSocket c, R_RoomJoined kb r nm n p st) \<in> set (snd (robust_step t c f))
      \<and> rs_roomKey va \<noteq> kb \<longrightarrow>
      (\<exists>vb. r_userSessions (fst (robust_step t c f)) c = Some vb
          \<and> rs_roomKey vb = kb \<and> rs_role vb = r)
      \<and> r_rooms (fst (robust_step t c f)) (rs_roomKey va) = r_rooms t (rs_roomKey va))"
proof ((rule conjI; rule impI), goal_cases)
  case 1
  then show ?case
    using simple_join_professor_joined [of c kb n r s] simple_join_student_joined [of c kb n r s]
      simple_other_events_not_joined [of c kb n r s]
    by (cases e) auto
next
  case 2
  then show ?case
    using robust_join_professor_joined [of c kb r nm n p st t]
      robust_join_student_joined [of c kb r nm n p st t]
      robust_other_events_not_joined [of c kb r nm n p st t]
    by (cases f) auto
qed


theorem rejoin_replaces_session_only_witness:
  "s_userSessions s_opened ''P1'' =
       Some \<lparr>ss_role = Professor, ss_name = ''Ann'', ss_roomKey = ''MATH101'',
             ss_userId = ''P1'', ss_joinedAt = 0\<rparr>
   \<and> (ToSocket ''P1'', S_RoomJoined ''PHYS202'' 1 Professor)
       \<in> set (snd (simple_step s_opened ''P1'' (S_JoinProfessor 1 ann_moves)))
   \<and> map_option (\<lambda>u. (ss_roomKey u, ss_role u))
        (s_userSessions (fst (simple_step s_opened ''P1'' (S_JoinProfessor 1 ann_moves))) ''P1'')
       = Some (''PHYS202'', Professor)
   \<and> s_rooms (fst (simple_step s_opened ''P1'' (S_JoinProfessor 1 ann_moves))) ''MATH101''
       = Some \<lparr>s_professor = Some ''P1'', s_students = [], s_history = [], s_userCount = 1,
               s_createdAt = 0, s_createdBy = ''Ann''\<rparr>
   \<and> r_userSessions r_opened ''P1'' =
       Some \<lparr>rs_role = Professor, rs_name = ''Ann'', rs_roomKey = ''MATH101'', rs_userId = ''P1''\<rparr>
   \<and> (ToSocket ''P1'', R_RoomJoined ''PHYS202'' Professor ''Ann'' 1 1 0)
       \<in> set (snd (robust_step r_opened ''P1'' (R_JoinProfessor 1 ''GEN123'' ann_moves)))
   \<and> map_option (\<lambda>u. (rs_roomKey u, rs_role u))
        (r_userSessions (fst (robust_step r_opened ''P1'' (R_JoinProfessor 1 ''GEN123'' ann_moves)))
           ''P1'')
       = Some (''PHYS202'', Professor)
   \<and> map_option (\<lambda>room. map fst (r_professors room))
        (r_rooms (fst (robust_step r_opened ''P1'' (R_JoinProfessor 1 ''GEN123'' ann_moves)))
           ''MATH101'')
       = Some [''P1'']"
proof -
  let ?ua = "\<lparr>ss_role = Professor, ss_name = ''Ann'', ss_roomKey = ''MATH101'',
             ss_userId = ''P1'', ss_joinedAt = 0\<rparr>"
  let ?va = "\<lparr>rs_role = Professor, rs_name = ''Ann'', rs_roomKey = ''MATH101'', rs_userId = ''P1''\<rparr>"
  have hs: "s_userSessions s_opened ''P1'' = Some ?ua
      \<and> (ToSocket ''P1'', S_RoomJoined ''PHYS202'' 1 Professor)
          \<in> set (snd (simple_step s_opened ''P1'' (S_JoinProfessor 1 ann_moves)))
      \<and> ss_roomKey ?ua \<noteq> ''PHYS202''"
    by (simp add: s_opened_eq ann_moves_def simple_handler_defs char_eval)
  have hr: "r_userSessions r_opened ''P1'' = Some ?va
      \<and> (ToSocket ''P1'', R_RoomJoined ''PHYS202'' Professor ''Ann'' 1 1 0)
          \<in> set (snd (robust_step r_opened ''P1'' (R_JoinProfessor 1 ''GEN123'' ann_moves)))
      \<and> rs_roomKey ?va \<noteq> ''PHYS202''"
    by (simp add: r_opened_eq ann_moves_def robust_handler_defs char_eval)
  note inst = rejoin_replaces_session_only [where s = s_opened and c = "''P1''" and ua = ?ua
      and kb = "''PHYS202''" and n = 1 and r = Professor and e = "S_JoinProfessor 1 ann_moves"
      and t = r_opened and va = ?va and nm = "''Ann''" and p = 1 and st = 0
      and f = "R_JoinProfessor 1 ''GEN123'' ann_moves"]
  from inst hs obtain ub where
    s: "s_userSessions (fst (simple_step s_opened ''P1'' (S_JoinProfessor 1 ann_moves))) ''P1''
          = Some ub" "ss_roomKey ub = ''PHYS202''" "ss_role ub = Professor"
       "s_rooms (fst (simple_step s_opened ''P1'' (S_JoinProfessor 1 ann_moves))) (ss_roomKey ?ua)
          = s_rooms s_opened (ss_roomKey ?ua)"
    by blast
  from inst hr obtain vb where
    r: "r_userSessions (fst (robust_step r_opened ''P1'' (R_JoinProfessor 1 ''GEN123'' ann_moves)))
          ''P1'' = Some vb" "rs_roomKey vb = ''PHYS202''" "rs_role vb = Professor"
       "r_rooms (fst (robust_step r_opened ''P1'' (R_JoinProfessor 1 ''GEN123'' ann_moves)))
          (rs_roomKey ?va) = r_rooms r_opened (rs_roomKey ?va)"
    by blast
  have sm: "s_rooms s_opened ''MATH101''
       = Some \<lparr>s_professor = Some ''P1'', s_students = [], s_history = [], s_userCount = 1,
               s_createdAt = 0, s_createdBy = ''Ann''\<rparr>"
    by (simp add: s_opened_eq)
  have rm: "map_option (\<lambda>room. map fst (r_professors room)) (r_rooms r_opened ''MATH101'')
       = Some [''P1'']"
    by (simp add: r_opened_eq)
  from hs hr s r sm rm show ?thesis by simp
qed

end
